theory Spec2Isabelle
  imports Main "HOL-Library.Char_ord" "HOL-Library.List_Lexorder"
begin

section \<open>Common values\<close>

text \<open>
  A JavaScript exception \<^verbatim>\<open>throw new Error(msg)\<close> is the value \<open>Inl (Error msg)\<close> of
  a result type \<open>error + 'a\<close>.  A string is a list of characters, each a code unit below
  256, which covers every identifier and name the repository writes; its length is the
  number of code units, as \<^verbatim>\<open>.length\<close> is.  Strings are compared as
  \<^verbatim>\<open>Array.prototype.sort\<close> compares them without a comparator: lexicographically, code
  unit by code unit, a proper prefix first.  An optional field \<^verbatim>\<open>f?: T\<close> is a
  \<open>T option\<close>, \<open>None\<close> standing for both an absent field and \<^verbatim>\<open>undefined\<close>.
\<close>

datatype error = Error string

section \<open>CloudWatch data protection policy\<close>

subsection \<open>data-identifiers.ts\<close>

definition ADDRESS_DATA_IDENTIFIER :: string where
  "ADDRESS_DATA_IDENTIFIER = ''arn:aws:dataprotection::aws:data-identifier/Address''"

definition AWS_SECRET_KEY_DATA_IDENTIFIER :: string where
  "AWS_SECRET_KEY_DATA_IDENTIFIER = ''arn:aws:dataprotection::aws:data-identifier/AwsSecretKey''"

definition EMAIL_DATA_IDENTIFIER :: string where
  "EMAIL_DATA_IDENTIFIER = ''arn:aws:dataprotection::aws:data-identifier/EmailAddress''"

definition SSN_US_DATA_IDENTIFIER :: string where
  "SSN_US_DATA_IDENTIFIER = ''arn:aws:dataprotection::aws:data-identifier/Ssn-US''"

definition SSN_ES_DATA_IDENTIFIER :: string where
  "SSN_ES_DATA_IDENTIFIER = ''arn:aws:dataprotection::aws:data-identifier/Ssn-ES''"

definition PHONE_NUM_US_DATA_IDENTIFIER :: string where
  "PHONE_NUM_US_DATA_IDENTIFIER = ''arn:aws:dataprotection::aws:data-identifier/PhoneNumber-US''"

definition DEFAULT_SENSITIVE_DATA_IDENTIFIERS :: "string list" where
  "DEFAULT_SENSITIVE_DATA_IDENTIFIERS =
     [ADDRESS_DATA_IDENTIFIER,
      EMAIL_DATA_IDENTIFIER,
      SSN_US_DATA_IDENTIFIER,
      SSN_ES_DATA_IDENTIFIER,
      PHONE_NUM_US_DATA_IDENTIFIER,
      AWS_SECRET_KEY_DATA_IDENTIFIER]"

subsection \<open>The array operations the policy function uses\<close>

text \<open>\<^verbatim>\<open>xs.indexOf(x)\<close>: the index of the first element equal to \<open>x\<close>, or \<open>-1\<close>.\<close>

fun indexOf :: "'a list \<Rightarrow> 'a \<Rightarrow> int" where
  "indexOf [] x = -1"
| "indexOf (y # ys) x =
     (if y = x then 0
      else (let i = indexOf ys x in if i = -1 then -1 else i + 1))"

text \<open>\<^verbatim>\<open>xs.splice(index, 1)\<close> at an index that is not negative: the array without
  the element at that index (unchanged when the index is past the end).\<close>

definition splice1 :: "'a list \<Rightarrow> int \<Rightarrow> 'a list" where
  "splice1 xs index = take (nat index) xs @ drop (nat index + 1) xs"

text \<open>The body of the \<^verbatim>\<open>forEach\<close> callback of lines 58 to 63 of
  data-protection-policy.ts.\<close>

definition excludeIdentifier :: "string list \<Rightarrow> string \<Rightarrow> string list" where
  "excludeIdentifier dataIdentifiers identifier =
     (let index = indexOf dataIdentifiers identifier
      in if index \<noteq> -1 then splice1 dataIdentifiers index else dataIdentifiers)"

text \<open>\<^verbatim>\<open>Array.from(new Set(xs))\<close>: a set keeps its elements in insertion order, and
  adding an element it already holds changes nothing.\<close>

definition Set_add :: "'a list \<Rightarrow> 'a \<Rightarrow> 'a list" where
  "Set_add s x = (if x \<in> set s then s else s @ [x])"

definition Array_from_Set :: "'a list \<Rightarrow> 'a list" where
  "Array_from_Set xs = foldl Set_add [] xs"

subsection \<open>data-protection-policy.ts\<close>

record CwDataProtectionPolicyProps =
  auditLogGroupName :: "string option"
  addToDefaultDataIdentifiers :: "string list option"
  excludeFromDefaultDataIdentifiers :: "string list option"

text \<open>The JSON document.  \<open>EmptyObject\<close> is \<^verbatim>\<open>{}\<close>, \<open>CloudWatchLogs g\<close> is
  \<^verbatim>\<open>{CloudWatchLogs: {LogGroup: g}}\<close>, \<open>Deidentify_MaskConfig\<close> is
  \<^verbatim>\<open>{Deidentify: {MaskConfig: {}}}\<close> and \<open>Audit d\<close> is
  \<^verbatim>\<open>{Audit: {FindingsDestination: d}}\<close>.\<close>

datatype FindingsDestination = EmptyObject | CloudWatchLogs string

datatype Operation = Deidentify_MaskConfig | Audit FindingsDestination

record PolicyDocumentStatement =
  Sid :: string
  Operation :: Operation
  DataIdentifier :: "string list"

record PolicyDocument =
  Name :: string
  Description :: string
  Version :: string
  Statement :: "PolicyDocumentStatement list"

definition getCloudwatchAuditDestination :: "string \<Rightarrow> FindingsDestination" where
  "getCloudwatchAuditDestination name = CloudWatchLogs name"

text \<open>data-protection-policy.ts, lines 51 to 64: the value of \<^verbatim>\<open>dataIdentifiers\<close> after the additions and the
  exclusions, before duplicates are removed.  \<^verbatim>\<open>concat\<close> builds a new array, so the
  \<^verbatim>\<open>splice\<close> calls never touch the caller's arrays.\<close>

definition identifiersAfterExclusion :: "CwDataProtectionPolicyProps \<Rightarrow> string list" where
  "identifiersAfterExclusion props =
     (let dataIdentifiers = DEFAULT_SENSITIVE_DATA_IDENTIFIERS;
          dataIdentifiers = dataIdentifiers @
            (case addToDefaultDataIdentifiers props of Some add \<Rightarrow> add | None \<Rightarrow> [])
      in case excludeFromDefaultDataIdentifiers props of
           Some exclude \<Rightarrow> foldl excludeIdentifier dataIdentifiers exclude
         | None \<Rightarrow> dataIdentifiers)"

text \<open>Lines 66 to 104.  \<^verbatim>\<open>sort()\<close> is \<open>sort\<close>: the list it is applied to has no
  duplicates, so there is one sorted arrangement of it, whatever the algorithm.  The guard
  \<^verbatim>\<open>props.auditLogGroupName ? ... : {}\<close> tests the name for truthiness: an unset name
  and the empty string both give \<^verbatim>\<open>{}\<close>.\<close>

definition cloudwatchDataProtectionPolicy ::
  "CwDataProtectionPolicyProps \<Rightarrow> error + PolicyDocument" where
  "cloudwatchDataProtectionPolicy props =
     (let dataIdentifiers = sort (Array_from_Set (identifiersAfterExclusion props))
      in if length dataIdentifiers = 0
         then Inl (Error ''There should be at least one data identifier in the policy.'')
         else Inr \<lparr>
           Name = ''data-protection-policy'',
           Description = ''Data protection policy for cloudwatch logs'',
           Version = ''2021-06-01'',
           Statement = [
             \<lparr>Sid = ''redact-data-protection-policy'',
              Operation = Deidentify_MaskConfig,
              DataIdentifier = dataIdentifiers\<rparr>,
             \<lparr>Sid = ''audit-data-protection-policy'',
              Operation = Audit
                (case auditLogGroupName props of
                   Some g \<Rightarrow> if g \<noteq> [] then getCloudwatchAuditDestination g else EmptyObject
                 | None \<Rightarrow> EmptyObject),
              DataIdentifier = dataIdentifiers\<rparr>]\<rparr>)"

section \<open>Values shared by the wrapper constructs\<close>

text \<open>
  A wrapper's constructor is modelled by what it hands to the constructor of the class it
  extends (\<open>superProps\<close>), the constructs it creates beside itself in \<^verbatim>\<open>scope\<close>
  (a key, a companion bucket or queue), the fields it sets on \<^verbatim>\<open>this\<close> and the
  statements it passes to \<^verbatim>\<open>addToResourcePolicy\<close>, in order.  The constructors of
  the provisioning framework itself (\<^verbatim>\<open>Queue\<close>, \<^verbatim>\<open>s3.Bucket\<close>, \<^verbatim>\<open>Topic\<close>,
  \<^verbatim>\<open>dynamodb.Table\<close>, \<^verbatim>\<open>FargateService\<close>), the grants to principals and the tags
  are outside the repository and outside the model.

  The spread \<^verbatim>\<open>{...defaults, ...props}\<close> keeps a field of \<^verbatim>\<open>props\<close> wherever
  \<^verbatim>\<open>props\<close> has it and takes the default elsewhere.
\<close>

definition spread :: "'a option \<Rightarrow> 'a option \<Rightarrow> 'a option" where
  "spread dflt own = (case own of Some v \<Rightarrow> Some v | None \<Rightarrow> dflt)"

text \<open>A \<^verbatim>\<open>Duration\<close>, in seconds.\<close>

datatype Duration = Seconds nat

definition Duration_seconds :: "nat \<Rightarrow> Duration" where
  "Duration_seconds n = Seconds n"

definition Duration_days :: "nat \<Rightarrow> Duration" where
  "Duration_days n = Seconds (n * 86400)"

text \<open>An \<^verbatim>\<open>IKey\<close> is a key the caller brought, or
  \<^verbatim>\<open>new Key(scope, id, {description, enableKeyRotation})\<close>.\<close>

datatype IKey =
  ImportedKey string
| Key (keyId: string) (description: string) (enableKeyRotation: bool)

datatype Effect = ALLOW | DENY

datatype IPrincipal = AnyPrincipal | Principal string

datatype ConditionValue = StringValue string | BooleanValue bool

text \<open>The resources of a statement: \<^verbatim>\<open>this.arnForObjects(pattern)\<close> of the bucket with
  the given construct id, or \<^verbatim>\<open>this.topicArn\<close> of the topic with the given id.\<close>

datatype ResourceArn = ArnForObjects string string | TopicArn string

text \<open>A condition \<^verbatim>\<open>{operator: {key: value}}\<close> is the triple \<open>(operator, key, value)\<close>.\<close>

record PolicyStatement =
  sid :: "string option"
  effect :: Effect
  actions :: "string list"
  principals :: "IPrincipal list"
  resources :: "ResourceArn list"
  conditions :: "(string \<times> string \<times> ConditionValue) list"

text \<open>A string is truthy unless it is undefined or empty.\<close>

definition truthy :: "string option \<Rightarrow> bool" where
  "truthy s = (case s of Some v \<Rightarrow> v \<noteq> [] | None \<Rightarrow> False)"

text \<open>\<^verbatim>\<open>s.endsWith(suffix)\<close>.\<close>

definition endsWith :: "string \<Rightarrow> string \<Rightarrow> bool" where
  "endsWith s suffix =
     (length suffix \<le> length s \<and> drop (length s - length suffix) s = suffix)"

text \<open>\<^verbatim>\<open>s.lastIndexOf(pat)\<close>: the greatest index at which \<open>pat\<close> occurs in \<open>s\<close>, or
  \<open>-1\<close>; the search runs from the end of the string down to index 0.\<close>

fun lastIndexFrom :: "string \<Rightarrow> string \<Rightarrow> nat \<Rightarrow> int" where
  "lastIndexFrom s pat 0 = (if take (length pat) s = pat then 0 else -1)"
| "lastIndexFrom s pat (Suc i) =
     (if take (length pat) (drop (Suc i) s) = pat then int (Suc i)
      else lastIndexFrom s pat i)"

definition lastIndexOf :: "string \<Rightarrow> string \<Rightarrow> int" where
  "lastIndexOf s pat = lastIndexFrom s pat (length s)"

text \<open>\<^verbatim>\<open>s.substr(0, n)\<close> (empty when \<open>n\<close> is negative) and \<^verbatim>\<open>s.substring(n)\<close>
  (a negative \<open>n\<close> counts as 0).\<close>

definition substr0 :: "string \<Rightarrow> int \<Rightarrow> string" where
  "substr0 s n = take (nat n) s"

definition substring :: "string \<Rightarrow> int \<Rightarrow> string" where
  "substring s n = drop (nat n) s"

section \<open>SQSQueue\<close>

datatype QueueEncryption = UNENCRYPTED | KMS_MANAGED | KMS | SQS_MANAGED

datatype 'q DeadLetterQueue =
  DeadLetterQueue (queue: 'q) (maxReceiveCount: int)

text \<open>\<^verbatim>\<open>SQSQueueProps\<close>; the type parameter is the type of queues.  \<open>otherQueueProps\<close>
  stands for the entries of \<^verbatim>\<open>QueueProps\<close> the wrapper never reads.\<close>

datatype 'q SQSQueueProps = SQSQueueProps
  (queueName: "string option")
  (encryption: "QueueEncryption option")
  (encryptionMasterKey: "IKey option")
  (deadLetterQueue: "'q DeadLetterQueue option")
  (retentionPeriod: "Duration option")
  (fifo: "bool option")
  (otherQueueProps: "(string \<times> string) list")
  (requireSecureTransport: "bool option")
  (principalsAllowedToSend: "IPrincipal list option")
  (principalsAllowedToConsume: "IPrincipal list option")
  (enableDeadLetterQueue: "bool option")
  (dlqMaxReceiveCount: "int option")

text \<open>A queue is one the caller brought, known by its name, or an \<^verbatim>\<open>SQSQueue\<close>:
  its construct id, the props handed to \<^verbatim>\<open>super\<close>, \<^verbatim>\<open>this.deadLetterQueue\<close>, the key
  and the dead-letter queue created in \<^verbatim>\<open>scope\<close> if any, and the statements added to
  its resource policy.\<close>

datatype IQueue =
  ImportedQueue string
| SQSQueue
    (constructId: string)
    (superProps: "IQueue SQSQueueProps")
    (thisDeadLetterQueue: "IQueue DeadLetterQueue option")
    (createdKey: "IKey option")
    (createdDeadLetterQueue: "IQueue option")
    (resourcePolicy: "PolicyStatement list")

definition MAX_ALLOWED_QUEUE_NAME_LENGTH :: nat where
  "MAX_ALLOWED_QUEUE_NAME_LENGTH = 80"

definition DEFAULT_RECEIVE_COUNT :: int where
  "DEFAULT_RECEIVE_COUNT = 100"

definition MAX_RETENTION_PERIOD :: Duration where
  "MAX_RETENTION_PERIOD = Duration_days 14"

text \<open>\<^verbatim>\<open>queue.queueName\<close>: the name of an imported queue; for a queue of this stack the
  name it was given, or else a token the framework resolves at deployment.\<close>

fun IQueue_queueName :: "IQueue \<Rightarrow> string" where
  "IQueue_queueName (ImportedQueue name) = name"
| "IQueue_queueName (SQSQueue i props dlq k d pol) =
     (case SQSQueueProps.queueName props of
        Some name \<Rightarrow> name
      | None \<Rightarrow> ''${Token['' @ i @ ''.QueueName]}'')"

definition createEncryptionMasterKey :: "string \<Rightarrow> IKey" where
  "createEncryptionMasterKey i = Key (i @ ''Key'') (''Created by '' @ i @ '' resource'') True"

definition getQueueNameForFifoDlq :: "string \<Rightarrow> error + string" where
  "getQueueNameForFifoDlq name =
     (let fifoSuffix = ''.fifo''
      in if \<not> endsWith name fifoSuffix
         then Inl (Error (''Fifo queue must have name ending with .fifo suffix. Present queue name : '' @ name))
         else (let fifoSuffixIndex = lastIndexOf name fifoSuffix
               in Inr (substr0 name fifoSuffixIndex @ ''-dlq'' @ substring name fifoSuffixIndex)))"

text \<open>The value of \<^verbatim>\<open>deadLetterQueueName\<close> where the constructor goes on to create the
  dead-letter queue, or the error of \<^verbatim>\<open>getQueueNameForFifoDlq\<close>: the name of the queue
  supplied, if one is; a name derived from a truthy \<^verbatim>\<open>queueName\<close> otherwise, dropped
  when it is longer than \<^verbatim>\<open>MAX_ALLOWED_QUEUE_NAME_LENGTH\<close>.\<close>

definition deadLetterQueueName :: "IQueue SQSQueueProps \<Rightarrow> error + string option" where
  "deadLetterQueueName props =
     (if truthy (SQSQueueProps.queueName props) \<and> SQSQueueProps.deadLetterQueue props = None
      then
        (case (if SQSQueueProps.fifo props = Some True
               then getQueueNameForFifoDlq (the (SQSQueueProps.queueName props))
               else Inr (the (SQSQueueProps.queueName props) @ ''-dlq'')) of
           Inl e \<Rightarrow> Inl e
         | Inr name \<Rightarrow>
             if length name > MAX_ALLOWED_QUEUE_NAME_LENGTH then Inr None else Inr (Some name))
      else Inr (map_option (\<lambda>d. IQueue_queueName (DeadLetterQueue.queue d))
                  (SQSQueueProps.deadLetterQueue props)))"

text \<open>The statement built under \<^verbatim>\<open>if (requireSecureTransport)\<close>; it names no
  resources.\<close>

definition secureQueuePolicyStatement :: PolicyStatement where
  "secureQueuePolicyStatement =
     \<lparr>sid = Some ''Enforce - HTTPS'',
      effect = DENY,
      actions = [''sqs:*''],
      principals = [AnyPrincipal],
      resources = [],
      conditions = [(''Bool'', ''aws:SecureTransport'', StringValue ''false'')]\<rparr>"

text \<open>The props handed to \<^verbatim>\<open>super\<close>: the resolved \<^verbatim>\<open>encryption\<close>,
  \<^verbatim>\<open>encryptionMasterKey\<close>, \<^verbatim>\<open>deadLetterQueue\<close> and \<^verbatim>\<open>retentionPeriod\<close>, with
  \<^verbatim>\<open>props\<close> spread over them.\<close>

definition SQSQueue_superProps ::
  "QueueEncryption \<Rightarrow> IKey option \<Rightarrow> IQueue DeadLetterQueue option \<Rightarrow> IQueue SQSQueueProps
     \<Rightarrow> IQueue SQSQueueProps" where
  "SQSQueue_superProps encryption' encryptionMasterKey' deadLetterQueue' props =
     SQSQueueProps
       (SQSQueueProps.queueName props)
       (spread (Some encryption') (SQSQueueProps.encryption props))
       (spread encryptionMasterKey' (SQSQueueProps.encryptionMasterKey props))
       (spread deadLetterQueue' (SQSQueueProps.deadLetterQueue props))
       (spread (Some (case SQSQueueProps.retentionPeriod props of
                        Some r \<Rightarrow> r | None \<Rightarrow> MAX_RETENTION_PERIOD))
               (SQSQueueProps.retentionPeriod props))
       (SQSQueueProps.fifo props)
       (SQSQueueProps.otherQueueProps props)
       (SQSQueueProps.requireSecureTransport props)
       (SQSQueueProps.principalsAllowedToSend props)
       (SQSQueueProps.principalsAllowedToConsume props)
       (SQSQueueProps.enableDeadLetterQueue props)
       (SQSQueueProps.dlqMaxReceiveCount props)"

text \<open>The props of the dead-letter queue, in the order of the fields of
  \<open>SQSQueueProps\<close>: the derived name, the encryption and the key of the primary queue, no
  dead-letter queue, 14 days of retention, \<^verbatim>\<open>fifo\<close> as the primary queue has it, no
  other entry, the secure-transport choice of the primary queue, its principals,
  \<^verbatim>\<open>enableDeadLetterQueue: false\<close>, and no \<^verbatim>\<open>dlqMaxReceiveCount\<close>.\<close>

definition SQSQueue_dlqProps ::
  "string option \<Rightarrow> QueueEncryption \<Rightarrow> IKey option \<Rightarrow> bool \<Rightarrow> IQueue SQSQueueProps
     \<Rightarrow> IQueue SQSQueueProps" where
  "SQSQueue_dlqProps deadLetterQueueName' encryption' encryptionMasterKey'
       requireSecureTransport' props =
     SQSQueueProps
       deadLetterQueueName'
       (Some encryption')
       encryptionMasterKey'
       None
       (Some MAX_RETENTION_PERIOD)
       (SQSQueueProps.fifo props)
       []
       (Some requireSecureTransport')
       (SQSQueueProps.principalsAllowedToSend props)
       (SQSQueueProps.principalsAllowedToConsume props)
       (Some False)
       None"

text \<open>The constructor, \<^verbatim>\<open>new SQSQueue(scope, id, props)\<close>.  It calls itself for the
  dead-letter queue, with \<^verbatim>\<open>enableDeadLetterQueue: false\<close>.\<close>

function new_SQSQueue :: "string \<Rightarrow> IQueue SQSQueueProps option \<Rightarrow> error + IQueue" where
  "new_SQSQueue i None = Inl (Error ''SQSQueueProps must be provided.'')"
| "new_SQSQueue i (Some props) =
     (let encryption' = (case SQSQueueProps.encryption props of
                           Some e \<Rightarrow> e | None \<Rightarrow> QueueEncryption.KMS);
          newKey = (if encryption' = QueueEncryption.KMS
                       \<and> SQSQueueProps.encryptionMasterKey props = None
                    then Some (createEncryptionMasterKey i) else None);
          encryptionMasterKey' = (case newKey of
                                    Some k \<Rightarrow> Some k
                                  | None \<Rightarrow> SQSQueueProps.encryptionMasterKey props);
          enableDeadLetterQueue' = (case SQSQueueProps.enableDeadLetterQueue props of
                                      Some b \<Rightarrow> b | None \<Rightarrow> True)
      in case deadLetterQueueName props of
           Inl e \<Rightarrow> Inl e
         | Inr deadLetterQueueName' \<Rightarrow>
            (let requireSecureTransport' =
                   (case SQSQueueProps.requireSecureTransport props of
                      Some b \<Rightarrow> b | None \<Rightarrow> True)
             in case (if enableDeadLetterQueue' \<and> SQSQueueProps.deadLetterQueue props = None
                      then
                        (case new_SQSQueue (i @ ''Dlq'')
                                (Some (SQSQueue_dlqProps deadLetterQueueName' encryption'
                                         encryptionMasterKey' requireSecureTransport' props)) of
                           Inl e \<Rightarrow> Inl e
                         | Inr q \<Rightarrow> Inr (Some q))
                      else Inr None) of
                  Inl e \<Rightarrow> Inl e
                | Inr newQueue \<Rightarrow>
                   (let deadLetterQueue' =
                          (case newQueue of
                             Some q \<Rightarrow>
                               Some (DeadLetterQueue q
                                 (case SQSQueueProps.dlqMaxReceiveCount props of
                                    Some n \<Rightarrow> n | None \<Rightarrow> DEFAULT_RECEIVE_COUNT))
                           | None \<Rightarrow> SQSQueueProps.deadLetterQueue props)
                    in Inr (SQSQueue i
                              (SQSQueue_superProps encryption' encryptionMasterKey'
                                 deadLetterQueue' props)
                              deadLetterQueue'
                              newKey
                              newQueue
                              (if requireSecureTransport' then [secureQueuePolicyStatement]
                               else [])))))"
  by pat_completeness auto
termination
  by (relation "measure (\<lambda>(i, props).
        case props of
          None \<Rightarrow> 0
        | Some p \<Rightarrow> if SQSQueueProps.enableDeadLetterQueue p \<noteq> Some False
                         \<and> SQSQueueProps.deadLetterQueue p = None then 1 else 0)")
     (auto simp: SQSQueue_dlqProps_def split: option.splits)

section \<open>Bucket and AccessLogsBucket\<close>

datatype BucketEncryption = UNENCRYPTED | KMS_MANAGED | S3_MANAGED | KMS | DSSE_MANAGED | DSSE

datatype BlockPublicAccess = BLOCK_ALL | BLOCK_ACLS | BlockPublicAccessOptions bool bool bool bool

datatype ObjectOwnership = BUCKET_OWNER_ENFORCED | BUCKET_OWNER_PREFERRED | OBJECT_WRITER

datatype StorageClass = INFREQUENT_ACCESS | ONE_ZONE_INFREQUENT_ACCESS | INTELLIGENT_TIERING
  | GLACIER | GLACIER_INSTANT_RETRIEVAL | DEEP_ARCHIVE

record Transition =
  storageClass :: StorageClass
  transitionAfter :: "Duration option"

record LifecycleRule =
  rule_id :: "string option"
  enabled :: "bool option"
  expiration :: "Duration option"
  noncurrentVersionExpiration :: "Duration option"
  transitions :: "Transition list option"

text \<open>\<^verbatim>\<open>BucketProps\<close>; the type parameter is the type of buckets.  \<open>otherBucketProps\<close>
  stands for the entries of \<^verbatim>\<open>s3.BucketProps\<close> that neither wrapper reads or sets.\<close>

datatype 'b BucketProps = BucketProps
  (bucketName: "string option")
  (encryption: "BucketEncryption option")
  (encryptionKey: "IKey option")
  (serverAccessLogsBucket: "'b option")
  (serverAccessLogsPrefix: "string option")
  (lifecycleRules: "LifecycleRule list option")
  (versioned: "bool option")
  (blockPublicAccess: "BlockPublicAccess option")
  (objectOwnership: "ObjectOwnership option")
  (otherBucketProps: "(string \<times> string) list")
  (requireSecureTransport: "bool option")
  (enableAccessLogging: "bool option")
  (enableDefaultLifecycleRules: "bool option")

text \<open>A bucket is one the caller brought, or a \<^verbatim>\<open>Bucket\<close>: its construct id, the
  props handed to \<^verbatim>\<open>super\<close>, \<^verbatim>\<open>this.serverAccessLogsBucket\<close>, the key and the
  access-log bucket created in \<^verbatim>\<open>scope\<close> if any, and the statements added to its
  resource policy.\<close>

datatype IBucket =
  ImportedBucket string
| Bucket
    (constructId: string)
    (superProps: "IBucket BucketProps")
    (thisServerAccessLogsBucket: "IBucket option")
    (createdKey: "IKey option")
    (createdAccessLogsBucket: "IBucket option")
    (resourcePolicy: "PolicyStatement list")

definition MAX_ALLOWED_BUCKET_NAME_LENGTH :: nat where
  "MAX_ALLOWED_BUCKET_NAME_LENGTH = 63"

definition NON_CURRENT_VERSION_EXPIRATION_DAYS :: nat where
  "NON_CURRENT_VERSION_EXPIRATION_DAYS = 90"

definition LOGS_CURRENT_VERSION_EXPIRATION_DAYS :: nat where
  "LOGS_CURRENT_VERSION_EXPIRATION_DAYS = 3650"

definition LOGS_CURRENT_VERSION_TRANSITION_DAYS :: nat where
  "LOGS_CURRENT_VERSION_TRANSITION_DAYS = 365"

text \<open>access-bucket-log.ts, lines 10 to 54: the props \<^verbatim>\<open>AccessLogsBucket\<close> hands to the
  constructor of \<^verbatim>\<open>Bucket\<close>.\<close>

definition AccessLogsBucket_updatedProps :: "IBucket BucketProps \<Rightarrow> IBucket BucketProps" where
  "AccessLogsBucket_updatedProps props =
     BucketProps
       (BucketProps.bucketName props)
       (Some S3_MANAGED)
       None
       None
       (Some ''logs/'')
       (Some [\<lparr>rule_id = Some ''CurrentVersionPolicyForLogs'',
               enabled = Some True,
               expiration = Some (Duration_days LOGS_CURRENT_VERSION_EXPIRATION_DAYS),
               noncurrentVersionExpiration = None,
               transitions = Some [\<lparr>storageClass = GLACIER,
                  transitionAfter = Some (Duration_days LOGS_CURRENT_VERSION_TRANSITION_DAYS)\<rparr>]\<rparr>])
       (Some True)
       (Some BLOCK_ALL)
       (Some BUCKET_OWNER_PREFERRED)
       []
       (Some (case BucketProps.requireSecureTransport props of Some b \<Rightarrow> b | None \<Rightarrow> True))
       (Some False)
       None"

text \<open>s3-bucket.ts, lines 88 to 95: the name of the access-log bucket.\<close>

definition accessLogBucketName :: "IBucket BucketProps \<Rightarrow> string option" where
  "accessLogBucketName props =
     (if truthy (BucketProps.bucketName props)
      then (let name = the (BucketProps.bucketName props) @ ''-logs''
            in if length name > MAX_ALLOWED_BUCKET_NAME_LENGTH then None else Some name)
      else None)"

text \<open>s3-bucket.ts, lines 98 to 101: the props of the access-log bucket, which set
  \<^verbatim>\<open>bucketName\<close> and \<^verbatim>\<open>requireSecureTransport\<close> and nothing else.\<close>

definition Bucket_accessLogsProps :: "IBucket BucketProps \<Rightarrow> IBucket BucketProps" where
  "Bucket_accessLogsProps props =
     BucketProps
       (accessLogBucketName props)
       None None None None None None None None []
       (BucketProps.requireSecureTransport props)
       None None"

text \<open>s3-bucket.ts, lines 112 to 116.\<close>

definition defaultLifecyclePolicy :: LifecycleRule where
  "defaultLifecyclePolicy =
     \<lparr>rule_id = Some ''NonCurrentVersionPolicyForCompliance'',
      enabled = Some True,
      expiration = None,
      noncurrentVersionExpiration = Some (Duration_days NON_CURRENT_VERSION_EXPIRATION_DAYS),
      transitions = None\<rparr>"

text \<open>s3-bucket.ts, lines 147 to 155 and 163 to 173.\<close>

definition secureTransportBucketStatement :: "string \<Rightarrow> PolicyStatement" where
  "secureTransportBucketStatement i =
     \<lparr>sid = None,
      effect = DENY,
      actions = [''s3:*''],
      principals = [AnyPrincipal],
      resources = [ArnForObjects i ''*''],
      conditions = [(''Bool'', ''aws:SecureTransport'', StringValue ''false'')]\<rparr>"

definition requireKmsBucketStatement :: "string \<Rightarrow> PolicyStatement" where
  "requireKmsBucketStatement i =
     \<lparr>sid = None,
      effect = DENY,
      actions = [''s3:PutObject''],
      principals = [AnyPrincipal],
      resources = [ArnForObjects i ''*''],
      conditions = [(''Null'', ''s3:x-amz-server-side-encryption-aws-kms-key-id'',
                     BooleanValue True)]\<rparr>"

text \<open>s3-bucket.ts, lines 123 to 134: \<^verbatim>\<open>updatedProps\<close>.\<close>

definition Bucket_updatedProps ::
  "BlockPublicAccess \<Rightarrow> BucketEncryption \<Rightarrow> IKey option \<Rightarrow> bool \<Rightarrow> LifecycleRule list option
     \<Rightarrow> IBucket option \<Rightarrow> bool \<Rightarrow> IBucket BucketProps \<Rightarrow> IBucket BucketProps" where
  "Bucket_updatedProps blockPublicAccess' encryption' encryptionKey' enableAccessLogging'
       lifecycleRules' serverAccessLogsBucket' versioned' props =
     BucketProps
       (BucketProps.bucketName props)
       (spread (Some encryption') (BucketProps.encryption props))
       (spread encryptionKey' (BucketProps.encryptionKey props))
       (spread serverAccessLogsBucket' (BucketProps.serverAccessLogsBucket props))
       (BucketProps.serverAccessLogsPrefix props)
       (spread lifecycleRules' (BucketProps.lifecycleRules props))
       (spread (Some versioned') (BucketProps.versioned props))
       (spread (Some blockPublicAccess') (BucketProps.blockPublicAccess props))
       (BucketProps.objectOwnership props)
       (BucketProps.otherBucketProps props)
       (BucketProps.requireSecureTransport props)
       (spread (Some enableAccessLogging') (BucketProps.enableAccessLogging props))
       (BucketProps.enableDefaultLifecycleRules props)"

text \<open>The constructor, \<^verbatim>\<open>new Bucket(scope, id, props)\<close>.  The access-log bucket is
  \<^verbatim>\<open>new AccessLogsBucket(scope, id + 'AccessLog', {bucketName, requireSecureTransport})\<close>,
  whose constructor is a call of this one on \<open>AccessLogsBucket_updatedProps\<close>.\<close>

function new_Bucket :: "string \<Rightarrow> IBucket BucketProps option \<Rightarrow> error + IBucket" where
  "new_Bucket i None = Inl (Error ''BucketProps must be provided'')"
| "new_Bucket i (Some props) =
     (let encryption' = (case BucketProps.encryption props of
                           Some e \<Rightarrow> e | None \<Rightarrow> BucketEncryption.KMS);
          newKey = (if encryption' = BucketEncryption.KMS \<and> BucketProps.encryptionKey props = None
                    then Some (Key (i @ ''Key'') (''Created by '' @ i @ '' resource'') True)
                    else None);
          encryptionKey' = (case newKey of
                              Some k \<Rightarrow> Some k | None \<Rightarrow> BucketProps.encryptionKey props);
          enableAccessLogging' = (case BucketProps.enableAccessLogging props of
                                    Some b \<Rightarrow> b | None \<Rightarrow> True)
      in case (if enableAccessLogging' \<and> BucketProps.serverAccessLogsBucket props = None
               then
                 (case new_Bucket (i @ ''AccessLog'')
                         (Some (AccessLogsBucket_updatedProps
                                  (Bucket_accessLogsProps props))) of
                    Inl e \<Rightarrow> Inl e
                  | Inr b \<Rightarrow> Inr (Some b))
               else Inr None) of
           Inl e \<Rightarrow> Inl e
         | Inr newAccessLogsBucket \<Rightarrow>
            (let serverAccessLogsBucket' =
                   (case newAccessLogsBucket of
                      Some b \<Rightarrow> Some b | None \<Rightarrow> BucketProps.serverAccessLogsBucket props);
                 versioned' = (case BucketProps.versioned props of
                                 Some b \<Rightarrow> b | None \<Rightarrow> True);
                 enableDefaultLifecycleRules' =
                   (case BucketProps.enableDefaultLifecycleRules props of
                      Some b \<Rightarrow> b | None \<Rightarrow> True);
                 lifecycleRules' =
                   (if enableDefaultLifecycleRules' \<and> versioned'
                       \<and> BucketProps.lifecycleRules props = None
                    then Some [defaultLifecyclePolicy]
                    else BucketProps.lifecycleRules props);
                 blockPublicAccess' = (case BucketProps.blockPublicAccess props of
                                         Some b \<Rightarrow> b | None \<Rightarrow> BLOCK_ALL);
                 updatedProps = Bucket_updatedProps blockPublicAccess' encryption' encryptionKey'
                                  enableAccessLogging' lifecycleRules' serverAccessLogsBucket'
                                  versioned' props;
                 requireSecureTransport' =
                   (case BucketProps.requireSecureTransport props of
                      Some b \<Rightarrow> b | None \<Rightarrow> True)
             in Inr (Bucket i updatedProps serverAccessLogsBucket' newKey newAccessLogsBucket
                       ((if requireSecureTransport' then [secureTransportBucketStatement i] else [])
                        @ (if BucketProps.encryption updatedProps = Some BucketEncryption.KMS
                           then [requireKmsBucketStatement i] else [])))))"
  by pat_completeness auto
termination
  by (relation "measure (\<lambda>(i, props).
        case props of
          None \<Rightarrow> 0
        | Some p \<Rightarrow> if BucketProps.enableAccessLogging p \<noteq> Some False
                         \<and> BucketProps.serverAccessLogsBucket p = None then 1 else 0)")
     (auto simp: AccessLogsBucket_updatedProps_def split: option.splits)

definition new_AccessLogsBucket :: "string \<Rightarrow> IBucket BucketProps \<Rightarrow> error + IBucket" where
  "new_AccessLogsBucket i props = new_Bucket i (Some (AccessLogsBucket_updatedProps props))"

section \<open>SnsTopic\<close>

definition ALL_SNS_ACTIONS :: "string list" where
  "ALL_SNS_ACTIONS =
     [''sns:GetTopicAttributes'',
      ''sns:SetTopicAttributes'',
      ''sns:AddPermission'',
      ''sns:RemovePermission'',
      ''sns:DeleteTopic'',
      ''sns:Subscribe'',
      ''sns:ListSubscriptionsByTopic'',
      ''sns:Publish'',
      ''sns:Receive'',
      ''sns:TagResource'',
      ''sns:UntagResource'',
      ''sns:ListTagsForResource'']"

text \<open>\<^verbatim>\<open>SnsTopicProps\<close>; \<open>otherTopicProps\<close> stands for the entries of
  \<^verbatim>\<open>TopicProps\<close> the wrapper never reads.\<close>

record SnsTopicProps =
  masterKey :: "IKey option"
  otherTopicProps :: "(string \<times> string) list"
  requireSecureTransport :: "bool option"
  enableEncryption :: "bool option"
  principalsAllowedToPublish :: "IPrincipal list option"
  principalsAllowedToSubscribe :: "IPrincipal list option"

record SnsTopic =
  constructId :: string
  superProps :: SnsTopicProps
  thisMasterKey :: "IKey option"
  createdKey :: "IKey option"
  resourcePolicy :: "PolicyStatement list"

text \<open>topic.ts, lines 138 to 146.\<close>

definition secureTopicPolicyStatement :: "string \<Rightarrow> PolicyStatement" where
  "secureTopicPolicyStatement i =
     \<lparr>sid = Some ''Enforce - HTTPS'',
      effect = DENY,
      actions = ALL_SNS_ACTIONS,
      principals = [AnyPrincipal],
      resources = [TopicArn i],
      conditions = [(''Bool'', ''aws:SecureTransport'', StringValue ''false'')]\<rparr>"

definition new_SnsTopic :: "string \<Rightarrow> SnsTopicProps option \<Rightarrow> error + SnsTopic" where
  "new_SnsTopic i props' =
     (case props' of
        None \<Rightarrow> Inl (Error ''SnsTopicProps must be provided.'')
      | Some props \<Rightarrow>
         (let enableEncryption' = (case SnsTopicProps.enableEncryption props of
                                     Some b \<Rightarrow> b | None \<Rightarrow> True);
              newKey = (if enableEncryption' \<and> SnsTopicProps.masterKey props = None
                        then Some (Key (i @ ''Key'') (''Created by '' @ i @ '' resource'') True)
                        else None);
              masterKey' = (case newKey of
                              Some k \<Rightarrow> Some k | None \<Rightarrow> SnsTopicProps.masterKey props);
              requireSecureTransport' =
                (case SnsTopicProps.requireSecureTransport props of
                   Some b \<Rightarrow> b | None \<Rightarrow> True)
          in Inr \<lparr>SnsTopic.constructId = i,
                  SnsTopic.superProps =
                    props\<lparr>SnsTopicProps.masterKey :=
                            spread masterKey' (SnsTopicProps.masterKey props)\<rparr>,
                  SnsTopic.thisMasterKey = masterKey',
                  SnsTopic.createdKey = newKey,
                  SnsTopic.resourcePolicy =
                    (if requireSecureTransport' then [secureTopicPolicyStatement i] else [])\<rparr>))"

section \<open>DynamoDBTable\<close>

datatype BillingMode = PAY_PER_REQUEST | PROVISIONED

datatype TableEncryption = DEFAULT | AWS_MANAGED | CUSTOMER_MANAGED

record EnableScalingProps =
  minCapacity :: int
  maxCapacity :: int

record UtilizationScalingProps =
  targetUtilizationPercent :: int
  scaleInCooldown :: "Duration option"
  scaleOutCooldown :: "Duration option"

text \<open>\<^verbatim>\<open>DynamoDBTableProps\<close> and \<^verbatim>\<open>DynamoDBGlobalSecondaryIndexProps\<close>; capacities are
  integers, and \<open>otherTableProps\<close>, \<open>otherIndexProps\<close> stand for the entries the wrapper
  never reads.\<close>

record DynamoDBTableProps =
  billingMode :: "BillingMode option"
  readCapacity :: "int option"
  writeCapacity :: "int option"
  pointInTimeRecovery :: "bool option"
  deletionProtection :: "bool option"
  encryption :: "TableEncryption option"
  otherTableProps :: "(string \<times> string) list"
  readScalingProps :: "EnableScalingProps option"
  writeScalingProps :: "EnableScalingProps option"

record DynamoDBGlobalSecondaryIndexProps =
  indexName :: string
  readCapacity :: "int option"
  writeCapacity :: "int option"
  otherIndexProps :: "(string \<times> string) list"
  readScalingProps :: "EnableScalingProps option"
  writeScalingProps :: "EnableScalingProps option"

definition DEFAULT_UTILIZATION_SCALING_PROPS :: UtilizationScalingProps where
  "DEFAULT_UTILIZATION_SCALING_PROPS =
     \<lparr>targetUtilizationPercent = 60,
      scaleInCooldown = Some (Duration_seconds 60),
      scaleOutCooldown = Some (Duration_seconds 60)\<rparr>"

text \<open>What a scaling policy is attached to: the table's read or write capacity, or that
  of the index with the given name.\<close>

datatype ScalableAttribute =
  TableReadCapacity | TableWriteCapacity | IndexReadCapacity string | IndexWriteCapacity string

text \<open>A table: the props handed to \<^verbatim>\<open>super\<close>, the private field
  \<^verbatim>\<open>usesProvisionedBillingMode\<close>, the props handed to \<^verbatim>\<open>super.addGlobalSecondaryIndex\<close>
  so far, and the calls \<^verbatim>\<open>autoScale...(scaling).scaleOnUtilization(utilization)\<close>.\<close>

record DynamoDBTable =
  superProps :: DynamoDBTableProps
  usesProvisionedBillingMode :: bool
  globalSecondaryIndexes :: "DynamoDBGlobalSecondaryIndexProps list"
  autoScaling :: "(ScalableAttribute \<times> EnableScalingProps \<times> UtilizationScalingProps) list"

text \<open>\<^verbatim>\<open>!capacity\<close> on a number: true when it is undefined or 0.\<close>

definition unsetOrZero :: "int option \<Rightarrow> bool" where
  "unsetOrZero n = (case n of Some v \<Rightarrow> v = 0 | None \<Rightarrow> True)"

text \<open>The calls of lines 129 to 133 and 173 to 177 of dynamodb-table.ts; \<^verbatim>\<open>scaling!\<close> asserts a value that
  the checks before it have established, and fails on \<^verbatim>\<open>undefined\<close>.\<close>

definition autoScale ::
  "ScalableAttribute \<Rightarrow> EnableScalingProps option
     \<Rightarrow> error + (ScalableAttribute \<times> EnableScalingProps \<times> UtilizationScalingProps)" where
  "autoScale attribute scaling =
     (case scaling of
        None \<Rightarrow> Inl (Error ''TypeError: scaling props are undefined'')
      | Some sp \<Rightarrow> Inr (attribute, sp, DEFAULT_UTILIZATION_SCALING_PROPS))"

definition new_DynamoDBTable :: "DynamoDBTableProps option \<Rightarrow> error + DynamoDBTable" where
  "new_DynamoDBTable props' =
     (case props' of
        None \<Rightarrow> Inl (Error ''DynamoDB table props must be provided'')
      | Some props \<Rightarrow>
         (let billingMode' = (case DynamoDBTableProps.billingMode props of
                                Some m \<Rightarrow> m | None \<Rightarrow> PAY_PER_REQUEST)
          in if DynamoDBTableProps.billingMode props = Some PROVISIONED
                \<and> (DynamoDBTableProps.readScalingProps props = None
                     \<or> DynamoDBTableProps.writeScalingProps props = None)
             then Inl (Error ''For provisioned DynamoDB table, auto-scaling readScalingProps & writeScalingProps are required.'')
             else
              (let readCapacity' =
                     (if DynamoDBTableProps.billingMode props = Some PROVISIONED
                         \<and> unsetOrZero (DynamoDBTableProps.readCapacity props)
                      then map_option minCapacity (DynamoDBTableProps.readScalingProps props)
                      else DynamoDBTableProps.readCapacity props);
                   writeCapacity' =
                     (if DynamoDBTableProps.billingMode props = Some PROVISIONED
                         \<and> unsetOrZero (DynamoDBTableProps.writeCapacity props)
                      then map_option minCapacity (DynamoDBTableProps.writeScalingProps props)
                      else DynamoDBTableProps.writeCapacity props);
                   pointInTimeRecovery' =
                     (case DynamoDBTableProps.pointInTimeRecovery props of
                        Some b \<Rightarrow> b | None \<Rightarrow> True);
                   deletionProtection' =
                     (case DynamoDBTableProps.deletionProtection props of
                        Some b \<Rightarrow> b | None \<Rightarrow> True);
                   encryption' = (case DynamoDBTableProps.encryption props of
                                    Some e \<Rightarrow> e | None \<Rightarrow> CUSTOMER_MANAGED);
                   updatedProps = props
                     \<lparr>DynamoDBTableProps.billingMode :=
                        spread (Some billingMode') (DynamoDBTableProps.billingMode props),
                      DynamoDBTableProps.encryption :=
                        spread (Some encryption') (DynamoDBTableProps.encryption props),
                      DynamoDBTableProps.pointInTimeRecovery :=
                        spread (Some pointInTimeRecovery')
                          (DynamoDBTableProps.pointInTimeRecovery props),
                      DynamoDBTableProps.deletionProtection :=
                        spread (Some deletionProtection')
                          (DynamoDBTableProps.deletionProtection props),
                      DynamoDBTableProps.readCapacity :=
                        spread readCapacity' (DynamoDBTableProps.readCapacity props),
                      DynamoDBTableProps.writeCapacity :=
                        spread writeCapacity' (DynamoDBTableProps.writeCapacity props)\<rparr>
               in if DynamoDBTableProps.billingMode updatedProps = Some PROVISIONED
                  then
                    (case autoScale TableReadCapacity
                            (DynamoDBTableProps.readScalingProps updatedProps) of
                       Inl e \<Rightarrow> Inl e
                     | Inr r \<Rightarrow>
                        (case autoScale TableWriteCapacity
                                (DynamoDBTableProps.writeScalingProps updatedProps) of
                           Inl e \<Rightarrow> Inl e
                         | Inr w \<Rightarrow>
                             Inr \<lparr>DynamoDBTable.superProps = updatedProps,
                                  usesProvisionedBillingMode = True,
                                  globalSecondaryIndexes = [],
                                  autoScaling = [r, w]\<rparr>))
                  else Inr \<lparr>DynamoDBTable.superProps = updatedProps,
                            usesProvisionedBillingMode = False,
                            globalSecondaryIndexes = [],
                            autoScaling = []\<rparr>)))"


section \<open>AlbFargateService\<close>

datatype FargatePlatformVersion = LATEST | VERSION1_4 | VERSION1_3 | VERSION1_2 | VERSION1_1
  | VERSION1_0

definition DEFAULT_TASK_COUNT :: int where
  "DEFAULT_TASK_COUNT = 1"

definition DEFAULT_PLATFORM_VERSION :: FargatePlatformVersion where
  "DEFAULT_PLATFORM_VERSION = LATEST"

definition DEFAULT_MIN_HEALTHY_PERCENT :: int where
  "DEFAULT_MIN_HEALTHY_PERCENT = 100"

definition DEFAULT_MAX_HEALTHY_PERCENT :: int where
  "DEFAULT_MAX_HEALTHY_PERCENT = 200"

definition DEFAULT_HEALTH_CHECK_GRACE_PERIOD :: Duration where
  "DEFAULT_HEALTH_CHECK_GRACE_PERIOD = Duration_seconds 60"

record DeploymentCircuitBreaker =
  rollback :: bool

definition DEFAULT_CIRCUIT_BREAKER :: DeploymentCircuitBreaker where
  "DEFAULT_CIRCUIT_BREAKER = \<lparr>rollback = True\<rparr>"

text \<open>\<^verbatim>\<open>AlbFargateServiceProps\<close>; the cluster, the load balancer and the task definition
  are known by their names, and counts and percentages are integers.\<close>

record AlbFargateServiceProps =
  ecsCluster :: string
  loadBalancer :: string
  taskDefinition :: string
  platformVersion :: "FargatePlatformVersion option"
  desiredCount :: "int option"
  minHealthyPercent :: "int option"
  maxHealthyPercent :: "int option"
  healthCheckGracePeriod :: "Duration option"
  serviceName :: "string option"
  dataProtectionPolicyProps :: "CwDataProtectionPolicyProps option"

text \<open>The props of \<^verbatim>\<open>new FargateService(this, 'FargateService', {...})\<close>.\<close>

record FargateServiceProps =
  cluster :: string
  taskDefinition :: string
  desiredCount :: "int option"
  platformVersion :: "FargatePlatformVersion option"
  minHealthyPercent :: "int option"
  maxHealthyPercent :: "int option"
  healthCheckGracePeriod :: "Duration option"
  circuitBreaker :: "DeploymentCircuitBreaker option"
  securityGroups :: "string list"
  serviceName :: "string option"

text \<open>\<^verbatim>\<open>n || dflt\<close> on a number: \<open>dflt\<close> when \<open>n\<close> is undefined or 0.\<close>

definition numberOr :: "int option \<Rightarrow> int \<Rightarrow> int" where
  "numberOr n dflt = (case n of Some v \<Rightarrow> if v \<noteq> 0 then v else dflt | None \<Rightarrow> dflt)"

text \<open>The object literal of lines 116 to 127.  A platform version and a
  \<^verbatim>\<open>Duration\<close> are truthy whenever they are set; \<^verbatim>\<open>serviceName\<close> is passed on only
  when it is truthy.\<close>

definition AlbFargateService_serviceProps :: "AlbFargateServiceProps \<Rightarrow> FargateServiceProps" where
  "AlbFargateService_serviceProps props =
     \<lparr>cluster = ecsCluster props,
      FargateServiceProps.taskDefinition = AlbFargateServiceProps.taskDefinition props,
      FargateServiceProps.desiredCount =
        Some (numberOr (AlbFargateServiceProps.desiredCount props) DEFAULT_TASK_COUNT),
      FargateServiceProps.platformVersion =
        Some (case AlbFargateServiceProps.platformVersion props of
                Some v \<Rightarrow> v | None \<Rightarrow> DEFAULT_PLATFORM_VERSION),
      FargateServiceProps.minHealthyPercent =
        Some (numberOr (AlbFargateServiceProps.minHealthyPercent props)
                DEFAULT_MIN_HEALTHY_PERCENT),
      FargateServiceProps.maxHealthyPercent =
        Some (numberOr (AlbFargateServiceProps.maxHealthyPercent props)
                DEFAULT_MAX_HEALTHY_PERCENT),
      FargateServiceProps.healthCheckGracePeriod =
        Some (case AlbFargateServiceProps.healthCheckGracePeriod props of
                Some d \<Rightarrow> d | None \<Rightarrow> DEFAULT_HEALTH_CHECK_GRACE_PERIOD),
      circuitBreaker = Some DEFAULT_CIRCUIT_BREAKER,
      securityGroups = [''ServiceSecurityGroup''],
      FargateServiceProps.serviceName =
        (if truthy (AlbFargateServiceProps.serviceName props)
         then AlbFargateServiceProps.serviceName props else None)\<rparr>"

section \<open>Properties of the data protection policy\<close>

subsection \<open>The array operations\<close>






lemma set_foldl_Set_add: "set (foldl Set_add acc xs) = set acc \<union> set xs"
  by (induction xs arbitrary: acc) (auto simp: Set_add_def)

lemma distinct_foldl_Set_add: "distinct acc \<Longrightarrow> distinct (foldl Set_add acc xs)"
  by (induction xs arbitrary: acc) (auto simp: Set_add_def)

lemma set_Array_from_Set: "set (Array_from_Set xs) = set xs"
  by (simp add: Array_from_Set_def set_foldl_Set_add)

lemma distinct_Array_from_Set: "distinct (Array_from_Set xs)"
  by (simp add: Array_from_Set_def distinct_foldl_Set_add)

lemma Array_from_Set_empty: "(Array_from_Set xs = []) = (xs = [])"
  using set_Array_from_Set [of xs] by (metis set_empty)

lemma sort_empty: "(sort xs = []) = (xs = [])"
  using set_sort [of "\<lambda>x. x" xs] by (metis set_empty)



subsection \<open>The identifier list\<close>


lemma policy_Inr:
  "cloudwatchDataProtectionPolicy props = Inr doc \<Longrightarrow>
     identifiersAfterExclusion props \<noteq> [] \<and>
     doc = \<lparr>Name = ''data-protection-policy'',
            Description = ''Data protection policy for cloudwatch logs'',
            Version = ''2021-06-01'',
            Statement = [
              \<lparr>Sid = ''redact-data-protection-policy'',
               Operation = Deidentify_MaskConfig,
               DataIdentifier = sort (Array_from_Set (identifiersAfterExclusion props))\<rparr>,
              \<lparr>Sid = ''audit-data-protection-policy'',
               Operation = Audit
                 (case auditLogGroupName props of
                    Some g \<Rightarrow> if g \<noteq> [] then getCloudwatchAuditDestination g else EmptyObject
                  | None \<Rightarrow> EmptyObject),
               DataIdentifier = sort (Array_from_Set (identifiersAfterExclusion props))\<rparr>]\<rparr>"
  by (auto simp: cloudwatchDataProtectionPolicy_def Let_def sort_empty Array_from_Set_empty
           split: if_splits)



subsection \<open>The policy document\<close>

text \<open>
  Claim C1, as the code has it.  Whenever \<open>cloudwatchDataProtectionPolicy\<close> returns a
  document, the document has the name \<^verbatim>\<open>data-protection-policy\<close>, the description
  \<^verbatim>\<open>Data protection policy for cloudwatch logs\<close>, the version \<^verbatim>\<open>2021-06-01\<close> and
  exactly two statements: the de-identification statement with a sorted list of identifiers
  free of duplicates, and the audit statement with the same list, whose
  \<^verbatim>\<open>FindingsDestination\<close> names the audit log group when \<^verbatim>\<open>auditLogGroupName\<close> is a
  non-empty string, and is the empty object when it is unset or the empty string.
\<close>

theorem policy_document_shape:
  assumes "cloudwatchDataProtectionPolicy props = Inr doc"
  shows "Name doc = ''data-protection-policy''
       \<and> Description doc = ''Data protection policy for cloudwatch logs''
       \<and> Version doc = ''2021-06-01''
       \<and> (\<exists>ids. sorted ids \<and> distinct ids
            \<and> Statement doc =
                [\<lparr>Sid = ''redact-data-protection-policy'',
                  Operation = Deidentify_MaskConfig,
                  DataIdentifier = ids\<rparr>,
                 \<lparr>Sid = ''audit-data-protection-policy'',
                  Operation = Audit
                    (if truthy (auditLogGroupName props)
                     then CloudWatchLogs (the (auditLogGroupName props))
                     else EmptyObject),
                  DataIdentifier = ids\<rparr>])"
proof -
  let ?ids = "sort (Array_from_Set (identifiersAfterExclusion props))"
  have ids: "sorted ?ids \<and> distinct ?ids"
    by (simp add: distinct_Array_from_Set)
  have dest: "(case auditLogGroupName props of
                 Some g \<Rightarrow> if g \<noteq> [] then getCloudwatchAuditDestination g else EmptyObject
               | None \<Rightarrow> EmptyObject)
            = (if truthy (auditLogGroupName props)
               then CloudWatchLogs (the (auditLogGroupName props)) else EmptyObject)"
    by (simp add: truthy_def getCloudwatchAuditDestination_def split: option.splits)
  from policy_Inr [OF assms] dest ids show ?thesis
    by auto
qed

text \<open>The theorem at a props record with three additions, two of them equal, and all six
  defaults excluded.\<close>

theorem policy_document_shape_witness:
  "cloudwatchDataProtectionPolicy
     \<lparr>auditLogGroupName = Some ''audit'',
      addToDefaultDataIdentifiers = Some [''arn:b'', ''arn:a'', ''arn:b''],
      excludeFromDefaultDataIdentifiers = Some DEFAULT_SENSITIVE_DATA_IDENTIFIERS\<rparr>
   = Inr \<lparr>Name = ''data-protection-policy'',
          Description = ''Data protection policy for cloudwatch logs'',
          Version = ''2021-06-01'',
          Statement =
            [\<lparr>Sid = ''redact-data-protection-policy'',
              Operation = Deidentify_MaskConfig,
              DataIdentifier = [''arn:a'', ''arn:b'']\<rparr>,
             \<lparr>Sid = ''audit-data-protection-policy'',
              Operation = Audit (CloudWatchLogs ''audit''),
              DataIdentifier = [''arn:a'', ''arn:b'']\<rparr>]\<rparr>
   \<and> sorted [''arn:a'', ''arn:b''] \<and> distinct [''arn:a'', ''arn:b'']"
proof -
  have h: "cloudwatchDataProtectionPolicy
     \<lparr>auditLogGroupName = Some ''audit'',
      addToDefaultDataIdentifiers = Some [''arn:b'', ''arn:a'', ''arn:b''],
      excludeFromDefaultDataIdentifiers = Some DEFAULT_SENSITIVE_DATA_IDENTIFIERS\<rparr>
   = Inr \<lparr>Name = ''data-protection-policy'',
          Description = ''Data protection policy for cloudwatch logs'',
          Version = ''2021-06-01'',
          Statement =
            [\<lparr>Sid = ''redact-data-protection-policy'',
              Operation = Deidentify_MaskConfig,
              DataIdentifier = [''arn:a'', ''arn:b'']\<rparr>,
             \<lparr>Sid = ''audit-data-protection-policy'',
              Operation = Audit (CloudWatchLogs ''audit''),
              DataIdentifier = [''arn:a'', ''arn:b'']\<rparr>]\<rparr>"
    by code_simp
  from policy_document_shape [OF h] h show ?thesis
    by simp
qed

text \<open>
  Claim C1 as stated fails where \<^verbatim>\<open>auditLogGroupName\<close> is set to the empty string: the
  name is set, the function returns a document, and the findings destination of its audit
  statement is the empty object, not a reference to the log group supplied.
\<close>

theorem policy_empty_audit_name_counterexample:
  "auditLogGroupName
     \<lparr>auditLogGroupName = Some '''', addToDefaultDataIdentifiers = None,
      excludeFromDefaultDataIdentifiers = None\<rparr> = Some ''''
   \<and> \<not> isl (cloudwatchDataProtectionPolicy
        \<lparr>auditLogGroupName = Some '''', addToDefaultDataIdentifiers = None,
         excludeFromDefaultDataIdentifiers = None\<rparr>)
   \<and> Operation (Statement (projr (cloudwatchDataProtectionPolicy
        \<lparr>auditLogGroupName = Some '''', addToDefaultDataIdentifiers = None,
         excludeFromDefaultDataIdentifiers = None\<rparr>)) ! 1) = Audit EmptyObject
   \<and> Audit EmptyObject \<noteq> Audit (getCloudwatchAuditDestination '''')"
  by code_simp





section \<open>Properties of SQSQueue\<close>

subsection \<open>Names\<close>

lemma endsWith_append: "endsWith (base @ suffix) suffix"
  by (simp add: endsWith_def)

lemma endsWith_split: "endsWith s suffix \<Longrightarrow> s = take (length s - length suffix) s @ suffix"
  by (metis append_take_drop_id endsWith_def)

lemma lastIndexFrom_found:
  "k \<le> i \<Longrightarrow> take (length pat) (drop k s) = pat
     \<Longrightarrow> (\<forall>j. k < j \<and> j \<le> i \<longrightarrow> take (length pat) (drop j s) \<noteq> pat)
     \<Longrightarrow> lastIndexFrom s pat i = int k"
proof (induction i)
  case 0
  then show ?case by simp
next
  case (Suc i)
  show ?case
  proof (cases "k = Suc i")
    case True
    with Suc.prems show ?thesis by simp
  next
    case False
    with Suc.prems have "k \<le> i" by simp
    moreover from Suc.prems False have "take (length pat) (drop (Suc i) s) \<noteq> pat" by auto
    moreover from Suc.prems have "\<forall>j. k < j \<and> j \<le> i \<longrightarrow> take (length pat) (drop j s) \<noteq> pat"
      by auto
    ultimately show ?thesis using Suc.IH Suc.prems(2) by simp
  qed
qed

lemma lastIndexOf_suffix:
  assumes "suffix \<noteq> []"
  shows "lastIndexOf (base @ suffix) suffix = int (length base)"
  unfolding lastIndexOf_def
proof (rule lastIndexFrom_found)
  show "length base \<le> length (base @ suffix)" by simp
  show "take (length suffix) (drop (length base) (base @ suffix)) = suffix" by simp
  show "\<forall>j. length base < j \<and> j \<le> length (base @ suffix)
          \<longrightarrow> take (length suffix) (drop j (base @ suffix)) \<noteq> suffix"
  proof (intro allI impI)
    fix j assume j: "length base < j \<and> j \<le> length (base @ suffix)"
    then have "length (drop j (base @ suffix)) < length suffix"
      by simp arith
    then have "length (take (length suffix) (drop j (base @ suffix))) < length suffix"
      by simp
    then show "take (length suffix) (drop j (base @ suffix)) \<noteq> suffix"
      by (metis less_irrefl)
  qed
qed

lemma getQueueNameForFifoDlq_fifo:
  "getQueueNameForFifoDlq (base @ ''.fifo'') = Inr (base @ ''-dlq.fifo'')"
proof -
  have "lastIndexOf (base @ ''.fifo'') ''.fifo'' = int (length base)"
    by (rule lastIndexOf_suffix) simp
  then show ?thesis
    by (simp add: getQueueNameForFifoDlq_def endsWith_append substr0_def substring_def)
qed


lemma getQueueNameForFifoDlq_Inr:
  assumes "getQueueNameForFifoDlq name = Inr d"
  shows "endsWith name ''.fifo'' \<and> d = take (length name - 5) name @ ''-dlq.fifo''"
proof -
  from assms have e: "endsWith name ''.fifo''"
    by (auto simp: getQueueNameForFifoDlq_def Let_def split: if_splits)
  then have "name = take (length name - 5) name @ ''.fifo''"
    using endsWith_split [of name "''.fifo''"] by (simp add: eval_nat_numeral)
  then have "getQueueNameForFifoDlq name = Inr (take (length name - 5) name @ ''-dlq.fifo'')"
    using getQueueNameForFifoDlq_fifo [of "take (length name - 5) name"] by simp
  with assms e show ?thesis by simp
qed

text \<open>The derived name of the dead-letter queue, when no dead-letter queue is supplied.\<close>

lemma deadLetterQueueName_Inr:
  assumes "deadLetterQueueName props = Inr dn"
    and "SQSQueueProps.deadLetterQueue props = None"
  shows "dn =
     (case SQSQueueProps.queueName props of
        None \<Rightarrow> None
      | Some n \<Rightarrow>
          if n \<noteq> [] \<and> length n + 4 \<le> MAX_ALLOWED_QUEUE_NAME_LENGTH
          then Some (if SQSQueueProps.fifo props = Some True
                     then take (length n - 5) n @ ''-dlq.fifo'' else n @ ''-dlq'')
          else None)"
    and "SQSQueueProps.fifo props = Some True \<Longrightarrow> truthy (SQSQueueProps.queueName props)
           \<Longrightarrow> endsWith (the (SQSQueueProps.queueName props)) ''.fifo''"
proof -
  show "SQSQueueProps.fifo props = Some True \<Longrightarrow> truthy (SQSQueueProps.queueName props)
           \<Longrightarrow> endsWith (the (SQSQueueProps.queueName props)) ''.fifo''"
    using assms
    by (auto simp: deadLetterQueueName_def split: sum.splits dest: getQueueNameForFifoDlq_Inr)
  show "dn =
     (case SQSQueueProps.queueName props of
        None \<Rightarrow> None
      | Some n \<Rightarrow>
          if n \<noteq> [] \<and> length n + 4 \<le> MAX_ALLOWED_QUEUE_NAME_LENGTH
          then Some (if SQSQueueProps.fifo props = Some True
                     then take (length n - 5) n @ ''-dlq.fifo'' else n @ ''-dlq'')
          else None)"
  proof (cases "SQSQueueProps.queueName props")
    case None
    with assms show ?thesis by (simp add: deadLetterQueueName_def truthy_def)
  next
    case (Some n)
    show ?thesis
    proof (cases "n = []")
      case True
      with Some assms show ?thesis by (simp add: deadLetterQueueName_def truthy_def)
    next
      case False
      show ?thesis
      proof (cases "SQSQueueProps.fifo props = Some True")
        case fifo: True
        with Some False assms obtain d where d: "getQueueNameForFifoDlq n = Inr d"
          by (auto simp: deadLetterQueueName_def truthy_def split: sum.splits)
        from getQueueNameForFifoDlq_Inr [OF d]
        have e: "endsWith n ''.fifo''" and dd: "d = take (length n - 5) n @ ''-dlq.fifo''"
          by simp_all
        from e have "5 \<le> length n" by (simp add: endsWith_def)
        then have "length d = length n + 4" using dd by simp
        with Some False fifo assms d dd show ?thesis
          by (auto simp: deadLetterQueueName_def truthy_def split: if_splits)
      next
        case nofifo: False
        with Some False assms show ?thesis
          by (auto simp: deadLetterQueueName_def truthy_def split: if_splits)
      qed
    qed
  qed
qed


text \<open>The constructor is unfolded one call at a time.\<close>

declare new_SQSQueue.simps [simp del]

text \<open>The queue built when no dead-letter queue is created.\<close>

lemma new_SQSQueue_without_dlq:
  assumes "SQSQueueProps.enableDeadLetterQueue props = Some False
             \<or> SQSQueueProps.deadLetterQueue props \<noteq> None"
  shows "new_SQSQueue i (Some props) =
     (case deadLetterQueueName props of
        Inl e \<Rightarrow> Inl e
      | Inr dn \<Rightarrow>
          Inr (SQSQueue i
                 (SQSQueue_superProps
                    (case SQSQueueProps.encryption props of
                       Some e \<Rightarrow> e | None \<Rightarrow> QueueEncryption.KMS)
                    (if SQSQueueProps.encryption props \<in> {None, Some QueueEncryption.KMS}
                        \<and> SQSQueueProps.encryptionMasterKey props = None
                     then Some (createEncryptionMasterKey i)
                     else SQSQueueProps.encryptionMasterKey props)
                    (SQSQueueProps.deadLetterQueue props) props)
                 (SQSQueueProps.deadLetterQueue props)
                 (if SQSQueueProps.encryption props \<in> {None, Some QueueEncryption.KMS}
                     \<and> SQSQueueProps.encryptionMasterKey props = None
                  then Some (createEncryptionMasterKey i) else None)
                 None
                 (if SQSQueueProps.requireSecureTransport props \<noteq> Some False
                  then [secureQueuePolicyStatement] else [])))"
proof -
  have guard: "\<not> ((case SQSQueueProps.enableDeadLetterQueue props of
                     Some b \<Rightarrow> b | None \<Rightarrow> True)
                  \<and> SQSQueueProps.deadLetterQueue props = None)"
    using assms by auto
  show ?thesis
    apply (subst new_SQSQueue.simps(2))
    apply (simp only: Let_def guard if_False)
    apply (auto split: option.splits sum.splits)
    done
qed


lemma new_SQSQueue_error:
  "deadLetterQueueName props = Inl e \<Longrightarrow> new_SQSQueue i (Some props) = Inl e"
  by (subst new_SQSQueue.simps(2)) (simp add: Let_def)

text \<open>The constructor of the dead-letter queue never throws: its name is unset or was
  derived, and a derived FIFO name ends with the suffix.\<close>

lemma deadLetterQueueName_dlqProps:
  assumes "deadLetterQueueName props = Inr dn"
    and "SQSQueueProps.deadLetterQueue props = None"
  shows "\<exists>x. deadLetterQueueName (SQSQueue_dlqProps dn enc key rst props) = Inr x"
proof (cases "truthy dn")
  case False
  then show ?thesis
    by (simp add: deadLetterQueueName_def SQSQueue_dlqProps_def)
next
  case True
  then obtain n where n: "dn = Some n" "n \<noteq> []"
    by (auto simp: truthy_def split: option.splits)
  show ?thesis
  proof (cases "SQSQueueProps.fifo props = Some True")
    case False
    with True show ?thesis
      by (simp add: deadLetterQueueName_def SQSQueue_dlqProps_def)
  next
    case fifo: True
    from deadLetterQueueName_Inr(1) [OF assms] n fifo
    have "n = take (length (the (SQSQueueProps.queueName props)) - 5)
                (the (SQSQueueProps.queueName props)) @ ''-dlq'' @ ''.fifo''"
      by (auto split: option.splits if_splits)
    then obtain base where "n = base @ ''.fifo''"
      by (metis append.assoc)
    then have "getQueueNameForFifoDlq n = Inr (base @ ''-dlq.fifo'')"
      by (simp add: getQueueNameForFifoDlq_fifo)
    with True fifo n show ?thesis
      by (simp add: deadLetterQueueName_def SQSQueue_dlqProps_def)
  qed
qed

text \<open>The queue built when a dead-letter queue is created, and that dead-letter queue.\<close>

lemma new_SQSQueue_with_dlq:
  fixes props :: "IQueue SQSQueueProps" and i :: string
  defines "enc \<equiv> (case SQSQueueProps.encryption props of
                     Some e \<Rightarrow> e | None \<Rightarrow> QueueEncryption.KMS)"
  defines "newKey \<equiv> (if enc = QueueEncryption.KMS
                          \<and> SQSQueueProps.encryptionMasterKey props = None
                       then Some (createEncryptionMasterKey i) else None)"
  defines "key \<equiv> (case newKey of Some k \<Rightarrow> Some k
                   | None \<Rightarrow> SQSQueueProps.encryptionMasterKey props)"
  defines "rst \<equiv> (case SQSQueueProps.requireSecureTransport props of
                     Some b \<Rightarrow> b | None \<Rightarrow> True)"
  defines "pol \<equiv> (if rst then [secureQueuePolicyStatement] else [])"
  defines "m \<equiv> (case SQSQueueProps.dlqMaxReceiveCount props of
                   Some n \<Rightarrow> n | None \<Rightarrow> DEFAULT_RECEIVE_COUNT)"
  assumes enable: "SQSQueueProps.enableDeadLetterQueue props \<noteq> Some False"
    and nodlq: "SQSQueueProps.deadLetterQueue props = None"
    and name: "deadLetterQueueName props = Inr dn"
  defines "d \<equiv> SQSQueue (i @ ''Dlq'')
                  (SQSQueue_superProps enc key None (SQSQueue_dlqProps dn enc key rst props))
                  None None None pol"
  shows "new_SQSQueue i (Some props) =
           Inr (SQSQueue i
                  (SQSQueue_superProps enc key (Some (DeadLetterQueue d m)) props)
                  (Some (DeadLetterQueue d m)) newKey (Some d) pol)"
proof -
  let ?dp = "SQSQueue_dlqProps dn enc key rst props"
  have guard: "(case SQSQueueProps.enableDeadLetterQueue props of Some b \<Rightarrow> b | None \<Rightarrow> True)
                 \<and> SQSQueueProps.deadLetterQueue props = None"
    using enable nodlq by (auto split: option.splits)
  obtain x where x: "deadLetterQueueName ?dp = Inr x"
    using deadLetterQueueName_dlqProps [OF name nodlq] by blast
  have keyK: "enc = QueueEncryption.KMS \<Longrightarrow> key \<noteq> None"
    by (auto simp: key_def newKey_def)
  have inner: "new_SQSQueue (i @ ''Dlq'') (Some ?dp) = Inr d"
  proof -
    have "SQSQueueProps.enableDeadLetterQueue ?dp = Some False
             \<or> SQSQueueProps.deadLetterQueue ?dp \<noteq> None"
      by (simp add: SQSQueue_dlqProps_def)
    from new_SQSQueue_without_dlq [OF this, of "i @ ''Dlq''"] x keyK
    show ?thesis
      by (auto simp: d_def pol_def SQSQueue_dlqProps_def)
  qed
  show ?thesis
    apply (subst new_SQSQueue.simps(2))
    apply (simp only: Let_def)
    apply (fold enc_def)
    apply (fold newKey_def)
    apply (fold key_def)
    apply (fold rst_def)
    apply (simp only: name guard if_True inner sum.case option.case)
    apply (simp add: m_def pol_def)
    done
qed

section \<open>Properties of Bucket\<close>

declare new_Bucket.simps [simp del]

text \<open>The bucket built when no access-log bucket is created.\<close>

lemma new_Bucket_without_logs:
  fixes props :: "IBucket BucketProps" and i :: string
  defines "enc \<equiv> (case BucketProps.encryption props of
                     Some e \<Rightarrow> e | None \<Rightarrow> BucketEncryption.KMS)"
  defines "newKey \<equiv> (if enc = BucketEncryption.KMS \<and> BucketProps.encryptionKey props = None
                       then Some (Key (i @ ''Key'') (''Created by '' @ i @ '' resource'') True)
                       else None)"
  defines "key \<equiv> (case newKey of Some k \<Rightarrow> Some k | None \<Rightarrow> BucketProps.encryptionKey props)"
  defines "logging \<equiv> (case BucketProps.enableAccessLogging props of
                         Some b \<Rightarrow> b | None \<Rightarrow> True)"
  defines "ver \<equiv> (case BucketProps.versioned props of Some b \<Rightarrow> b | None \<Rightarrow> True)"
  defines "rules \<equiv> (if (case BucketProps.enableDefaultLifecycleRules props of
                            Some b \<Rightarrow> b | None \<Rightarrow> True) \<and> ver
                          \<and> BucketProps.lifecycleRules props = None
                      then Some [defaultLifecyclePolicy]
                      else BucketProps.lifecycleRules props)"
  defines "bpa \<equiv> (case BucketProps.blockPublicAccess props of
                     Some b \<Rightarrow> b | None \<Rightarrow> BLOCK_ALL)"
  defines "pol \<equiv> (if (case BucketProps.requireSecureTransport props of
                          Some b \<Rightarrow> b | None \<Rightarrow> True)
                    then [secureTransportBucketStatement i] else [])
                   @ (if enc = BucketEncryption.KMS then [requireKmsBucketStatement i] else [])"
  assumes off: "BucketProps.enableAccessLogging props = Some False
                  \<or> BucketProps.serverAccessLogsBucket props \<noteq> None"
  shows "new_Bucket i (Some props) =
           Inr (Bucket i
                  (Bucket_updatedProps bpa enc key logging rules
                     (BucketProps.serverAccessLogsBucket props) ver props)
                  (BucketProps.serverAccessLogsBucket props) newKey None pol)"
proof -
  have guard: "\<not> ((case BucketProps.enableAccessLogging props of Some b \<Rightarrow> b | None \<Rightarrow> True)
                  \<and> BucketProps.serverAccessLogsBucket props = None)"
    using off by auto
  have encP: "(BucketProps.encryption
                 (Bucket_updatedProps bpa enc key logging rules
                    (BucketProps.serverAccessLogsBucket props) ver props)
               = Some BucketEncryption.KMS) = (enc = BucketEncryption.KMS)"
    by (auto simp: Bucket_updatedProps_def spread_def enc_def split: option.splits)
  show ?thesis
    apply (subst new_Bucket.simps(2))
    apply (simp only: Let_def guard if_False sum.case option.case)
    apply (fold enc_def)
    apply (fold newKey_def)
    apply (fold key_def)
    apply (fold logging_def)
    apply (fold ver_def)
    apply (fold rules_def)
    apply (fold bpa_def)
    apply (simp only: encP)
    apply (simp add: pol_def)
    done
qed


text \<open>The bucket built when an access-log bucket is created, and that access-log bucket.\<close>

lemma new_Bucket_with_logs:
  fixes props :: "IBucket BucketProps" and i :: string
  defines "enc \<equiv> (case BucketProps.encryption props of
                     Some e \<Rightarrow> e | None \<Rightarrow> BucketEncryption.KMS)"
  defines "newKey \<equiv> (if enc = BucketEncryption.KMS \<and> BucketProps.encryptionKey props = None
                       then Some (Key (i @ ''Key'') (''Created by '' @ i @ '' resource'') True)
                       else None)"
  defines "key \<equiv> (case newKey of Some k \<Rightarrow> Some k | None \<Rightarrow> BucketProps.encryptionKey props)"
  defines "ver \<equiv> (case BucketProps.versioned props of Some b \<Rightarrow> b | None \<Rightarrow> True)"
  defines "rules \<equiv> (if (case BucketProps.enableDefaultLifecycleRules props of
                            Some b \<Rightarrow> b | None \<Rightarrow> True) \<and> ver
                          \<and> BucketProps.lifecycleRules props = None
                      then Some [defaultLifecyclePolicy]
                      else BucketProps.lifecycleRules props)"
  defines "bpa \<equiv> (case BucketProps.blockPublicAccess props of
                     Some b \<Rightarrow> b | None \<Rightarrow> BLOCK_ALL)"
  defines "rst \<equiv> (case BucketProps.requireSecureTransport props of
                     Some b \<Rightarrow> b | None \<Rightarrow> True)"
  defines "pol \<equiv> (if rst then [secureTransportBucketStatement i] else [])
                   @ (if enc = BucketEncryption.KMS then [requireKmsBucketStatement i] else [])"
  defines "ap \<equiv> AccessLogsBucket_updatedProps (Bucket_accessLogsProps props)"
  defines "lb \<equiv> Bucket (i @ ''AccessLog'')
                   (Bucket_updatedProps BLOCK_ALL S3_MANAGED None False
                      (BucketProps.lifecycleRules ap) None True ap)
                   None None None
                   (if rst then [secureTransportBucketStatement (i @ ''AccessLog'')] else [])"
  assumes on: "BucketProps.enableAccessLogging props \<noteq> Some False"
    and nologs: "BucketProps.serverAccessLogsBucket props = None"
  shows "new_Bucket i (Some props) =
           Inr (Bucket i
                  (Bucket_updatedProps bpa enc key True rules (Some lb) ver props)
                  (Some lb) newKey (Some lb) pol)"
proof -
  have guard: "(case BucketProps.enableAccessLogging props of Some b \<Rightarrow> b | None \<Rightarrow> True)
                 \<and> BucketProps.serverAccessLogsBucket props = None"
    using on nologs by (auto split: option.splits)
  have inner: "new_Bucket (i @ ''AccessLog'') (Some ap) = Inr lb"
  proof -
    have "BucketProps.enableAccessLogging ap = Some False
            \<or> BucketProps.serverAccessLogsBucket ap \<noteq> None"
      by (simp add: ap_def AccessLogsBucket_updatedProps_def)
    from new_Bucket_without_logs [OF this, of "i @ ''AccessLog''"]
    show ?thesis
      by (simp add: lb_def rst_def)
         (simp add: ap_def AccessLogsBucket_updatedProps_def Bucket_accessLogsProps_def
               split: option.splits)
  qed
  have encP: "(BucketProps.encryption
                 (Bucket_updatedProps bpa enc key True rules (Some lb) ver props)
               = Some BucketEncryption.KMS) = (enc = BucketEncryption.KMS)"
    by (auto simp: Bucket_updatedProps_def spread_def enc_def split: option.splits)
  show ?thesis
    apply (subst new_Bucket.simps(2))
    apply (simp only: Let_def guard if_True)
    apply (fold ap_def)
    apply (simp only: inner sum.case option.case)
    apply (fold enc_def)
    apply (fold newKey_def)
    apply (fold key_def)
    apply (fold ver_def)
    apply (fold rules_def)
    apply (fold bpa_def)
    apply (fold rst_def)
    apply (simp add: encP pol_def)
    done
qed

section \<open>The dead-letter queue that SQSQueue creates\<close>

text \<open>A construction that succeeds has derived a name, and it has created a dead-letter
  queue only if the feature is not switched off and the caller supplied none.\<close>

lemma new_SQSQueue_Inr_name:
  "new_SQSQueue i (Some props) = Inr q \<Longrightarrow> \<exists>dn. deadLetterQueueName props = Inr dn"
  by (cases "deadLetterQueueName props") (simp_all add: new_SQSQueue_error)

lemma new_SQSQueue_created_guard:
  assumes "new_SQSQueue i (Some props) = Inr q"
    and "IQueue.createdDeadLetterQueue q = Some d"
  shows "SQSQueueProps.enableDeadLetterQueue props \<noteq> Some False
           \<and> SQSQueueProps.deadLetterQueue props = None"
proof (rule ccontr)
  assume "\<not> ?thesis"
  then have off: "SQSQueueProps.enableDeadLetterQueue props = Some False
                    \<or> SQSQueueProps.deadLetterQueue props \<noteq> None"
    by auto
  from new_SQSQueue_Inr_name [OF assms(1)] obtain dn where "deadLetterQueueName props = Inr dn"
    by blast
  with new_SQSQueue_without_dlq [OF off, of i] assms show False
    by simp
qed



section \<open>The name of the dead-letter queue of a FIFO queue\<close>


lemma deadLetterQueueName_fifo_suffix:
  assumes "SQSQueueProps.fifo props = Some True"
    and "SQSQueueProps.queueName props = Some (base @ ''.fifo'')"
    and "SQSQueueProps.deadLetterQueue props = None"
  shows "deadLetterQueueName props =
           Inr (if length (base @ ''-dlq'' @ ''.fifo'') \<le> 80
                then Some (base @ ''-dlq'' @ ''.fifo'') else None)"
  using assms
  by (simp add: deadLetterQueueName_def truthy_def getQueueNameForFifoDlq_fifo
        MAX_ALLOWED_QUEUE_NAME_LENGTH_def)

lemma new_SQSQueue_total:
  assumes "deadLetterQueueName props = Inr dn"
  shows "\<exists>q. new_SQSQueue i (Some props) = Inr q"
proof (cases "SQSQueueProps.enableDeadLetterQueue props \<noteq> Some False
                \<and> SQSQueueProps.deadLetterQueue props = None")
  case True
  then show ?thesis using new_SQSQueue_with_dlq [OF _ _ assms, of i] by blast
next
  case False
  then have "SQSQueueProps.enableDeadLetterQueue props = Some False
               \<or> SQSQueueProps.deadLetterQueue props \<noteq> None"
    by auto
  from new_SQSQueue_without_dlq [OF this, of i] assms show ?thesis by simp
qed

lemma created_dead_letter_queue_name:
  assumes "new_SQSQueue i (Some props) = Inr q"
    and "IQueue.createdDeadLetterQueue q = Some d"
    and "deadLetterQueueName props = Inr dn"
  shows "SQSQueueProps.queueName (IQueue.superProps d) = dn"
proof -
  from new_SQSQueue_created_guard [OF assms(1,2)]
  have on: "SQSQueueProps.enableDeadLetterQueue props \<noteq> Some False"
    and nodlq: "SQSQueueProps.deadLetterQueue props = None"
    by simp_all
  from new_SQSQueue_with_dlq [OF on nodlq assms(3), of i] assms(1,2)
  have "\<exists>e k r pol. d = SQSQueue (i @ ''Dlq'')
          (SQSQueue_superProps e k None (SQSQueue_dlqProps dn e k r props)) None None None pol"
    by auto
  then show ?thesis
    by (auto simp: SQSQueue_superProps_def SQSQueue_dlqProps_def)
qed




section \<open>What the constructors build\<close>

text \<open>Both cases of the constructor of \<^verbatim>\<open>Bucket\<close> in one equation.\<close>

lemma new_Bucket_eq:
  fixes props :: "IBucket BucketProps" and i :: string
  defines "enc \<equiv> (case BucketProps.encryption props of
                     Some e \<Rightarrow> e | None \<Rightarrow> BucketEncryption.KMS)"
  defines "newKey \<equiv> (if enc = BucketEncryption.KMS \<and> BucketProps.encryptionKey props = None
                       then Some (Key (i @ ''Key'') (''Created by '' @ i @ '' resource'') True)
                       else None)"
  defines "key \<equiv> (case newKey of Some k \<Rightarrow> Some k | None \<Rightarrow> BucketProps.encryptionKey props)"
  defines "logging \<equiv> (case BucketProps.enableAccessLogging props of
                         Some b \<Rightarrow> b | None \<Rightarrow> True)"
  defines "ver \<equiv> (case BucketProps.versioned props of Some b \<Rightarrow> b | None \<Rightarrow> True)"
  defines "rules \<equiv> (if (case BucketProps.enableDefaultLifecycleRules props of
                            Some b \<Rightarrow> b | None \<Rightarrow> True) \<and> ver
                          \<and> BucketProps.lifecycleRules props = None
                      then Some [defaultLifecyclePolicy]
                      else BucketProps.lifecycleRules props)"
  defines "bpa \<equiv> (case BucketProps.blockPublicAccess props of
                     Some b \<Rightarrow> b | None \<Rightarrow> BLOCK_ALL)"
  defines "rst \<equiv> (case BucketProps.requireSecureTransport props of
                     Some b \<Rightarrow> b | None \<Rightarrow> True)"
  defines "pol \<equiv> (if rst then [secureTransportBucketStatement i] else [])
                   @ (if enc = BucketEncryption.KMS then [requireKmsBucketStatement i] else [])"
  defines "ap \<equiv> AccessLogsBucket_updatedProps (Bucket_accessLogsProps props)"
  defines "lb \<equiv> Bucket (i @ ''AccessLog'')
                   (Bucket_updatedProps BLOCK_ALL S3_MANAGED None False
                      (BucketProps.lifecycleRules ap) None True ap)
                   None None None
                   (if rst then [secureTransportBucketStatement (i @ ''AccessLog'')] else [])"
  defines "created \<equiv> (if logging \<and> BucketProps.serverAccessLogsBucket props = None
                        then Some lb else None)"
  defines "logs \<equiv> (case created of
                      Some l \<Rightarrow> Some l | None \<Rightarrow> BucketProps.serverAccessLogsBucket props)"
  shows "new_Bucket i (Some props) =
           Inr (Bucket i (Bucket_updatedProps bpa enc key logging rules logs ver props)
                  logs newKey created pol)"
proof (cases "BucketProps.enableAccessLogging props \<noteq> Some False
                \<and> BucketProps.serverAccessLogsBucket props = None")
  case True
  then have on: "BucketProps.enableAccessLogging props \<noteq> Some False"
    and nologs: "BucketProps.serverAccessLogsBucket props = None"
    by simp_all
  from on have l: "logging" by (auto simp: logging_def split: option.splits)
  from l nologs have c: "created = Some lb" by (simp add: created_def)
  show ?thesis
    unfolding new_Bucket_with_logs [OF on nologs, of i]
    by (simp add: c l logs_def lb_def ap_def rst_def pol_def enc_def key_def newKey_def
          ver_def rules_def bpa_def)
next
  case False
  then have off: "BucketProps.enableAccessLogging props = Some False
               \<or> BucketProps.serverAccessLogsBucket props \<noteq> None"
    by auto
  then have c: "created = None" by (auto simp: created_def logging_def)
  show ?thesis
    unfolding new_Bucket_without_logs [OF off, of i]
    by (simp add: c logs_def logging_def rst_def pol_def enc_def key_def newKey_def
          ver_def rules_def bpa_def)
qed


text \<open>Both cases of the constructor of \<^verbatim>\<open>SQSQueue\<close> in one equation, for a
  construction that does not throw.\<close>

lemma new_SQSQueue_eq:
  fixes props :: "IQueue SQSQueueProps" and i :: string
  defines "enc \<equiv> (case SQSQueueProps.encryption props of
                     Some e \<Rightarrow> e | None \<Rightarrow> QueueEncryption.KMS)"
  defines "newKey \<equiv> (if enc = QueueEncryption.KMS
                          \<and> SQSQueueProps.encryptionMasterKey props = None
                       then Some (createEncryptionMasterKey i) else None)"
  defines "key \<equiv> (case newKey of Some k \<Rightarrow> Some k
                   | None \<Rightarrow> SQSQueueProps.encryptionMasterKey props)"
  defines "rst \<equiv> (case SQSQueueProps.requireSecureTransport props of
                     Some b \<Rightarrow> b | None \<Rightarrow> True)"
  defines "pol \<equiv> (if rst then [secureQueuePolicyStatement] else [])"
  defines "m \<equiv> (case SQSQueueProps.dlqMaxReceiveCount props of
                   Some n \<Rightarrow> n | None \<Rightarrow> DEFAULT_RECEIVE_COUNT)"
  assumes name: "deadLetterQueueName props = Inr dn"
  defines "d \<equiv> SQSQueue (i @ ''Dlq'')
                  (SQSQueue_superProps enc key None (SQSQueue_dlqProps dn enc key rst props))
                  None None None pol"
  defines "created \<equiv> (if SQSQueueProps.enableDeadLetterQueue props \<noteq> Some False
                           \<and> SQSQueueProps.deadLetterQueue props = None
                        then Some d else None)"
  defines "dlq \<equiv> (case created of
                     Some q \<Rightarrow> Some (DeadLetterQueue q m)
                   | None \<Rightarrow> SQSQueueProps.deadLetterQueue props)"
  shows "new_SQSQueue i (Some props) =
           Inr (SQSQueue i (SQSQueue_superProps enc key dlq props) dlq newKey created pol)"
proof (cases "SQSQueueProps.enableDeadLetterQueue props \<noteq> Some False
                \<and> SQSQueueProps.deadLetterQueue props = None")
  case True
  then have on: "SQSQueueProps.enableDeadLetterQueue props \<noteq> Some False"
    and nodlq: "SQSQueueProps.deadLetterQueue props = None"
    by simp_all
  have c: "created = Some d" using True by (simp add: created_def)
  show ?thesis
    unfolding new_SQSQueue_with_dlq [OF on nodlq name, of i]
    by (simp add: c dlq_def d_def m_def pol_def rst_def key_def newKey_def enc_def)
next
  case False
  then have off: "SQSQueueProps.enableDeadLetterQueue props = Some False
               \<or> SQSQueueProps.deadLetterQueue props \<noteq> None"
    by auto
  then have c: "created = None" by (auto simp: created_def)
  have k: "(SQSQueueProps.encryption props \<in> {None, Some QueueEncryption.KMS}) =
             (enc = QueueEncryption.KMS)"
    by (auto simp: enc_def split: option.splits)
  have r: "(SQSQueueProps.requireSecureTransport props \<noteq> Some False) = rst"
    by (auto simp: rst_def split: option.splits)
  show ?thesis
    unfolding new_SQSQueue_without_dlq [OF off, of i] name
    by (simp only: k r sum.case)
       (simp add: c dlq_def pol_def key_def newKey_def enc_def)
qed

lemma new_Bucket_total: "\<exists>b. new_Bucket i (Some props) = Inr b"
  unfolding new_Bucket_eq by blast

text \<open>Whether a statement denies requests that do not use secure transport.\<close>

lemma secureQueuePolicyStatement_denies:
  "effect secureQueuePolicyStatement = DENY
     \<and> (''Bool'', ''aws:SecureTransport'', StringValue ''false'')
         \<in> set (conditions secureQueuePolicyStatement)"
  by (simp add: secureQueuePolicyStatement_def)

lemma secureTransportBucketStatement_denies:
  "effect (secureTransportBucketStatement i) = DENY
     \<and> (''Bool'', ''aws:SecureTransport'', StringValue ''false'')
         \<in> set (conditions (secureTransportBucketStatement i))"
  by (simp add: secureTransportBucketStatement_def)

lemma requireKmsBucketStatement_other:
  "(''Bool'', ''aws:SecureTransport'', StringValue ''false'')
     \<notin> set (conditions (requireKmsBucketStatement i))"
  by (simp add: requireKmsBucketStatement_def)

lemma secureTopicPolicyStatement_denies:
  "effect (secureTopicPolicyStatement i) = DENY
     \<and> (''Bool'', ''aws:SecureTransport'', StringValue ''false'')
         \<in> set (conditions (secureTopicPolicyStatement i))"
  by (simp add: secureTopicPolicyStatement_def)

lemma new_Bucket_resourcePolicy:
  assumes "new_Bucket i (Some props) = Inr b"
  shows "IBucket.resourcePolicy b =
           (if BucketProps.requireSecureTransport props \<noteq> Some False
            then [secureTransportBucketStatement i] else [])
           @ (if BucketProps.encryption props \<in> {None, Some BucketEncryption.KMS}
              then [requireKmsBucketStatement i] else [])"
proof -
  have "IBucket.resourcePolicy (projr (new_Bucket i (Some props))) =
           (if BucketProps.requireSecureTransport props \<noteq> Some False
            then [secureTransportBucketStatement i] else [])
           @ (if BucketProps.encryption props \<in> {None, Some BucketEncryption.KMS}
              then [requireKmsBucketStatement i] else [])"
    unfolding new_Bucket_eq by (auto split: option.splits)
  then show ?thesis unfolding assms sum.sel .
qed

lemma new_SQSQueue_resourcePolicy:
  assumes "new_SQSQueue i (Some props) = Inr q"
  shows "IQueue.resourcePolicy q =
           (if SQSQueueProps.requireSecureTransport props \<noteq> Some False
            then [secureQueuePolicyStatement] else [])"
proof -
  from new_SQSQueue_Inr_name [OF assms] obtain dn where "deadLetterQueueName props = Inr dn"
    by blast
  from new_SQSQueue_eq [OF this, of i]
  have "IQueue.resourcePolicy (projr (new_SQSQueue i (Some props))) =
           (if SQSQueueProps.requireSecureTransport props \<noteq> Some False
            then [secureQueuePolicyStatement] else [])"
    by (auto split: option.splits)
  then show ?thesis unfolding assms sum.sel .
qed

text \<open>The constructor of \<^verbatim>\<open>SnsTopic\<close> never throws on props that are present.\<close>

lemma new_SnsTopic_Some:
  "new_SnsTopic i (Some props) =
     Inr \<lparr>SnsTopic.constructId = i,
          SnsTopic.superProps =
            props\<lparr>SnsTopicProps.masterKey :=
              (if SnsTopicProps.enableEncryption props \<noteq> Some False
                  \<and> SnsTopicProps.masterKey props = None
               then Some (Key (i @ ''Key'') (''Created by '' @ i @ '' resource'') True)
               else SnsTopicProps.masterKey props)\<rparr>,
          SnsTopic.thisMasterKey =
            (if SnsTopicProps.enableEncryption props \<noteq> Some False
                \<and> SnsTopicProps.masterKey props = None
             then Some (Key (i @ ''Key'') (''Created by '' @ i @ '' resource'') True)
             else SnsTopicProps.masterKey props),
          SnsTopic.createdKey =
            (if SnsTopicProps.enableEncryption props \<noteq> Some False
                \<and> SnsTopicProps.masterKey props = None
             then Some (Key (i @ ''Key'') (''Created by '' @ i @ '' resource'') True)
             else None),
          SnsTopic.resourcePolicy =
            (if SnsTopicProps.requireSecureTransport props \<noteq> Some False
             then [secureTopicPolicyStatement i] else [])\<rparr>"
  by (auto simp: new_SnsTopic_def Let_def spread_def split: option.splits)


lemma new_Bucket_createdAccessLogsBucket:
  assumes "new_Bucket i (Some props) = Inr b"
  shows "(IBucket.createdAccessLogsBucket b \<noteq> None) =
           (BucketProps.enableAccessLogging props \<noteq> Some False
              \<and> BucketProps.serverAccessLogsBucket props = None)"
proof -
  have "(IBucket.createdAccessLogsBucket (projr (new_Bucket i (Some props))) \<noteq> None) =
           (BucketProps.enableAccessLogging props \<noteq> Some False
              \<and> BucketProps.serverAccessLogsBucket props = None)"
    unfolding new_Bucket_eq by (auto split: option.splits)
  then show ?thesis unfolding assms sum.sel .
qed

lemma new_Bucket_access_log_name:
  assumes "new_Bucket i (Some props) = Inr b"
    and "IBucket.createdAccessLogsBucket b = Some lb"
  shows "BucketProps.bucketName (IBucket.superProps lb) = accessLogBucketName props"
proof -
  have "\<forall>l. IBucket.createdAccessLogsBucket (projr (new_Bucket i (Some props))) = Some l
          \<longrightarrow> BucketProps.bucketName (IBucket.superProps l) = accessLogBucketName props"
    unfolding new_Bucket_eq
    by (auto simp: Bucket_updatedProps_def AccessLogsBucket_updatedProps_def
          Bucket_accessLogsProps_def split: if_splits)
  then show ?thesis using assms by simp
qed



lemma new_SQSQueue_createdDeadLetterQueue:
  assumes "new_SQSQueue i (Some props) = Inr q"
  shows "(IQueue.createdDeadLetterQueue q \<noteq> None) =
           (SQSQueueProps.enableDeadLetterQueue props \<noteq> Some False
              \<and> SQSQueueProps.deadLetterQueue props = None)"
proof -
  from new_SQSQueue_Inr_name [OF assms] obtain dn where "deadLetterQueueName props = Inr dn"
    by blast
  from new_SQSQueue_eq [OF this, of i]
  have "(IQueue.createdDeadLetterQueue (projr (new_SQSQueue i (Some props))) \<noteq> None) =
           (SQSQueueProps.enableDeadLetterQueue props \<noteq> Some False
              \<and> SQSQueueProps.deadLetterQueue props = None)"
    by simp
  then show ?thesis unfolding assms sum.sel .
qed


section \<open>Secure transport\<close>

text \<open>
  Claim C5.  A statement with effect \<^verbatim>\<open>Deny\<close> and the condition
  \<^verbatim>\<open>Bool: {'aws:SecureTransport': 'false'}\<close> is in the resource policy of a
  \<^verbatim>\<open>Bucket\<close>, of an \<^verbatim>\<open>SQSQueue\<close> and of an \<^verbatim>\<open>SnsTopic\<close> exactly when
  \<^verbatim>\<open>requireSecureTransport\<close> is not set to false.  A bucket and a topic are always built
  when props are given; for a queue the statement is about every construction that does
  not throw.
\<close>

theorem secure_transport_statement_attached:
  "(\<exists>b. new_Bucket i (Some bprops) = Inr b
      \<and> ((\<exists>s \<in> set (IBucket.resourcePolicy b).
             effect s = DENY
               \<and> (''Bool'', ''aws:SecureTransport'', StringValue ''false'') \<in> set (conditions s))
           = (BucketProps.requireSecureTransport bprops \<noteq> Some False)))
   \<and> (\<forall>q. new_SQSQueue j (Some qprops) = Inr q \<longrightarrow>
         ((\<exists>s \<in> set (IQueue.resourcePolicy q).
             effect s = DENY
               \<and> (''Bool'', ''aws:SecureTransport'', StringValue ''false'') \<in> set (conditions s))
           = (SQSQueueProps.requireSecureTransport qprops \<noteq> Some False)))
   \<and> (\<exists>t. new_SnsTopic k (Some tprops) = Inr t
      \<and> ((\<exists>s \<in> set (SnsTopic.resourcePolicy t).
             effect s = DENY
               \<and> (''Bool'', ''aws:SecureTransport'', StringValue ''false'') \<in> set (conditions s))
           = (SnsTopicProps.requireSecureTransport tprops \<noteq> Some False)))"
proof (intro conjI allI impI)
  obtain b where b: "new_Bucket i (Some bprops) = Inr b"
    using new_Bucket_total by blast
  have "(\<exists>s \<in> set (IBucket.resourcePolicy b).
             effect s = DENY
               \<and> (''Bool'', ''aws:SecureTransport'', StringValue ''false'') \<in> set (conditions s))
           = (BucketProps.requireSecureTransport bprops \<noteq> Some False)"
    unfolding new_Bucket_resourcePolicy [OF b]
    using secureTransportBucketStatement_denies [of i] requireKmsBucketStatement_other [of i]
    by auto
  with b show "\<exists>b. new_Bucket i (Some bprops) = Inr b
      \<and> ((\<exists>s \<in> set (IBucket.resourcePolicy b).
             effect s = DENY
               \<and> (''Bool'', ''aws:SecureTransport'', StringValue ''false'') \<in> set (conditions s))
           = (BucketProps.requireSecureTransport bprops \<noteq> Some False))"
    by blast
next
  fix q assume q: "new_SQSQueue j (Some qprops) = Inr q"
  show "(\<exists>s \<in> set (IQueue.resourcePolicy q).
             effect s = DENY
               \<and> (''Bool'', ''aws:SecureTransport'', StringValue ''false'') \<in> set (conditions s))
           = (SQSQueueProps.requireSecureTransport qprops \<noteq> Some False)"
    unfolding new_SQSQueue_resourcePolicy [OF q]
    using secureQueuePolicyStatement_denies by auto
next
  show "\<exists>t. new_SnsTopic k (Some tprops) = Inr t
      \<and> ((\<exists>s \<in> set (SnsTopic.resourcePolicy t).
             effect s = DENY
               \<and> (''Bool'', ''aws:SecureTransport'', StringValue ''false'') \<in> set (conditions s))
           = (SnsTopicProps.requireSecureTransport tprops \<noteq> Some False))"
    unfolding new_SnsTopic_Some
    using secureTopicPolicyStatement_denies [of k] by auto
qed

text \<open>The theorem at props that leave \<^verbatim>\<open>requireSecureTransport\<close> unset, and at props that
  set it to false.\<close>

theorem secure_transport_statement_attached_witness:
  "(\<exists>s \<in> set (IBucket.resourcePolicy (projr (new_Bucket ''B'' (Some (BucketProps (Some ''data'') None None None None None None None None [] None None None))))). effect s = DENY
          \<and> (''Bool'', ''aws:SecureTransport'', StringValue ''false'') \<in> set (conditions s))
   \<and> \<not> (\<exists>s \<in> set (IBucket.resourcePolicy (projr (new_Bucket ''B'' (Some (BucketProps (Some ''data'') (Some S3_MANAGED) None (Some (ImportedBucket ''logs'')) None None None None None [] (Some False) None None))))). effect s = DENY
          \<and> (''Bool'', ''aws:SecureTransport'', StringValue ''false'') \<in> set (conditions s))
   \<and> (\<exists>s \<in> set (IQueue.resourcePolicy (projr (new_SQSQueue ''Q'' (Some (SQSQueueProps (Some ''orders'') None None None None None [] None None None None None))))). effect s = DENY
          \<and> (''Bool'', ''aws:SecureTransport'', StringValue ''false'') \<in> set (conditions s))
   \<and> \<not> (\<exists>s \<in> set (IQueue.resourcePolicy (projr (new_SQSQueue ''Q'' (Some (SQSQueueProps (Some ''orders'') None None (Some (DeadLetterQueue (ImportedQueue ''dead'') 3)) None None [] (Some False) None None None None))))). effect s = DENY
          \<and> (''Bool'', ''aws:SecureTransport'', StringValue ''false'') \<in> set (conditions s))
   \<and> (\<exists>s \<in> set (SnsTopic.resourcePolicy (projr (new_SnsTopic ''T'' (Some \<lparr>masterKey = None, otherTopicProps = [], SnsTopicProps.requireSecureTransport = None, enableEncryption = None, principalsAllowedToPublish = None, principalsAllowedToSubscribe = None\<rparr>)))). effect s = DENY
          \<and> (''Bool'', ''aws:SecureTransport'', StringValue ''false'') \<in> set (conditions s))
   \<and> \<not> (\<exists>s \<in> set (SnsTopic.resourcePolicy (projr (new_SnsTopic ''T'' (Some \<lparr>masterKey = Some (ImportedKey ''k''), otherTopicProps = [], SnsTopicProps.requireSecureTransport = Some False, enableEncryption = None, principalsAllowedToPublish = None, principalsAllowedToSubscribe = None\<rparr>)))). effect s = DENY
          \<and> (''Bool'', ''aws:SecureTransport'', StringValue ''false'') \<in> set (conditions s))"
proof -
  let ?bd = "(BucketProps (Some ''data'') None None None None None None None None [] None None None)"
  let ?bo = "(BucketProps (Some ''data'') (Some S3_MANAGED) None (Some (ImportedBucket ''logs'')) None None None None None [] (Some False) None None)"
  let ?qd = "(SQSQueueProps (Some ''orders'') None None None None None [] None None None None None)"
  let ?qo = "(SQSQueueProps (Some ''orders'') None None (Some (DeadLetterQueue (ImportedQueue ''dead'') 3)) None None [] (Some False) None None None None)"
  let ?td = "\<lparr>masterKey = None, otherTopicProps = [], SnsTopicProps.requireSecureTransport = None, enableEncryption = None, principalsAllowedToPublish = None, principalsAllowedToSubscribe = None\<rparr>"
  let ?to = "\<lparr>masterKey = Some (ImportedKey ''k''), otherTopicProps = [], SnsTopicProps.requireSecureTransport = Some False, enableEncryption = None, principalsAllowedToPublish = None, principalsAllowedToSubscribe = None\<rparr>"
  have names: "deadLetterQueueName ?qd = Inr (Some ''orders-dlq'')"
      "deadLetterQueueName ?qo = Inr (Some ''dead'')"
    by (simp_all add: deadLetterQueueName_def truthy_def MAX_ALLOWED_QUEUE_NAME_LENGTH_def)
  have qd: "new_SQSQueue ''Q'' (Some ?qd) = Inr (projr (new_SQSQueue ''Q'' (Some ?qd)))"
    and qo: "new_SQSQueue ''Q'' (Some ?qo) = Inr (projr (new_SQSQueue ''Q'' (Some ?qo)))"
    using new_SQSQueue_total [OF names(1), of "''Q''"] new_SQSQueue_total [OF names(2), of "''Q''"]
    by auto
  from secure_transport_statement_attached [of "''B''" ?bd "''Q''" ?qd "''T''" ?td] qd
  have 1: "(\<exists>s \<in> set (IBucket.resourcePolicy (projr (new_Bucket ''B'' (Some ?bd)))). effect s = DENY
          \<and> (''Bool'', ''aws:SecureTransport'', StringValue ''false'') \<in> set (conditions s))
   \<and> (\<exists>s \<in> set (IQueue.resourcePolicy (projr (new_SQSQueue ''Q'' (Some ?qd)))). effect s = DENY
          \<and> (''Bool'', ''aws:SecureTransport'', StringValue ''false'') \<in> set (conditions s))
   \<and> (\<exists>s \<in> set (SnsTopic.resourcePolicy (projr (new_SnsTopic ''T'' (Some ?td)))). effect s = DENY
          \<and> (''Bool'', ''aws:SecureTransport'', StringValue ''false'') \<in> set (conditions s))"
    by auto
  from secure_transport_statement_attached [of "''B''" ?bo "''Q''" ?qo "''T''" ?to] qo
  have 2: "\<not> (\<exists>s \<in> set (IBucket.resourcePolicy (projr (new_Bucket ''B'' (Some ?bo)))). effect s = DENY
          \<and> (''Bool'', ''aws:SecureTransport'', StringValue ''false'') \<in> set (conditions s))
   \<and> \<not> (\<exists>s \<in> set (IQueue.resourcePolicy (projr (new_SQSQueue ''Q'' (Some ?qo)))). effect s = DENY
          \<and> (''Bool'', ''aws:SecureTransport'', StringValue ''false'') \<in> set (conditions s))
   \<and> \<not> (\<exists>s \<in> set (SnsTopic.resourcePolicy (projr (new_SnsTopic ''T'' (Some ?to)))). effect s = DENY
          \<and> (''Bool'', ''aws:SecureTransport'', StringValue ''false'') \<in> set (conditions s))"
    by auto
  from 1 2 show ?thesis by simp
qed

section \<open>Companion resources\<close>



section \<open>Derived names\<close>

text \<open>
  Claim C3.  When \<^verbatim>\<open>Bucket\<close> creates an access-log bucket for a bucket named \<open>n\<close>, and
  \<open>n\<close> followed by \<^verbatim>\<open>-logs\<close> is longer than 63, the access-log bucket gets no name; a
  name it gets is \<open>n\<close> followed by \<^verbatim>\<open>-logs\<close>, whole, and at most 63 long.  When
  \<^verbatim>\<open>SQSQueue\<close> creates a dead-letter queue for a queue named \<open>n\<close>, and \<open>n\<close> followed by
  \<^verbatim>\<open>-dlq\<close> is longer than 80, the dead-letter queue gets no name; a name it gets is at
  most 80 long and is \<open>n\<close> followed by \<^verbatim>\<open>-dlq\<close>, or for a FIFO queue \<open>n\<close> with
  \<^verbatim>\<open>-dlq\<close> before its final \<^verbatim>\<open>.fifo\<close>, which has the same length.
\<close>

theorem derived_companion_name:
  "(\<forall>b lb n. new_Bucket i (Some bprops) = Inr b
        \<and> IBucket.createdAccessLogsBucket b = Some lb
        \<and> BucketProps.bucketName bprops = Some n \<longrightarrow>
          (length (n @ ''-logs'') > 63 \<longrightarrow> BucketProps.bucketName (IBucket.superProps lb) = None)
        \<and> (\<forall>m. BucketProps.bucketName (IBucket.superProps lb) = Some m \<longrightarrow>
               m = n @ ''-logs'' \<and> length m \<le> 63))
   \<and> (\<forall>q d n. new_SQSQueue j (Some qprops) = Inr q
        \<and> IQueue.createdDeadLetterQueue q = Some d
        \<and> SQSQueueProps.queueName qprops = Some n \<longrightarrow>
          (length (n @ ''-dlq'') > 80 \<longrightarrow> SQSQueueProps.queueName (IQueue.superProps d) = None)
        \<and> (\<forall>m. SQSQueueProps.queueName (IQueue.superProps d) = Some m \<longrightarrow>
               length m \<le> 80
             \<and> (if SQSQueueProps.fifo qprops = Some True
                 then \<exists>base. n = base @ ''.fifo'' \<and> m = base @ ''-dlq'' @ ''.fifo''
                 else m = n @ ''-dlq'')))"
proof -
  have bucket: "(length (n @ ''-logs'') > 63 \<longrightarrow> BucketProps.bucketName (IBucket.superProps lb) = None)
        \<and> (\<forall>m. BucketProps.bucketName (IBucket.superProps lb) = Some m \<longrightarrow>
               m = n @ ''-logs'' \<and> length m \<le> 63)"
    if h: "new_Bucket i (Some bprops) = Inr b
        \<and> IBucket.createdAccessLogsBucket b = Some lb
        \<and> BucketProps.bucketName bprops = Some n" for b lb n
  proof -
    from h have name: "BucketProps.bucketName (IBucket.superProps lb) = accessLogBucketName bprops"
      using new_Bucket_access_log_name by blast
    from h show ?thesis
      by (auto simp: name accessLogBucketName_def MAX_ALLOWED_BUCKET_NAME_LENGTH_def Let_def
            truthy_def split: if_splits)
  qed
  have queue: "(length (n @ ''-dlq'') > 80 \<longrightarrow> SQSQueueProps.queueName (IQueue.superProps d) = None)
        \<and> (\<forall>m. SQSQueueProps.queueName (IQueue.superProps d) = Some m \<longrightarrow>
               length m \<le> 80
             \<and> (if SQSQueueProps.fifo qprops = Some True
                 then \<exists>base. n = base @ ''.fifo'' \<and> m = base @ ''-dlq'' @ ''.fifo''
                 else m = n @ ''-dlq''))"
    if h: "new_SQSQueue j (Some qprops) = Inr q
        \<and> IQueue.createdDeadLetterQueue q = Some d
        \<and> SQSQueueProps.queueName qprops = Some n" for q d n
  proof -
    from h have q: "new_SQSQueue j (Some qprops) = Inr q"
      and d: "IQueue.createdDeadLetterQueue q = Some d"
      and n: "SQSQueueProps.queueName qprops = Some n"
      by simp_all
    from new_SQSQueue_created_guard [OF q d]
    have nodlq: "SQSQueueProps.deadLetterQueue qprops = None"
      by simp
    from new_SQSQueue_Inr_name [OF q] obtain dn where dn: "deadLetterQueueName qprops = Inr dn"
      by blast
    have name: "SQSQueueProps.queueName (IQueue.superProps d) = dn"
      by (rule created_dead_letter_queue_name [OF q d dn])
    from deadLetterQueueName_Inr(1) [OF dn nodlq] n
    have dn': "dn = (if n \<noteq> [] \<and> length n + 4 \<le> 80
                     then Some (if SQSQueueProps.fifo qprops = Some True
                                then take (length n - 5) n @ ''-dlq.fifo'' else n @ ''-dlq'')
                     else None)"
      by (simp add: MAX_ALLOWED_QUEUE_NAME_LENGTH_def)
    have long: "length (n @ ''-dlq'') > 80 \<longrightarrow> SQSQueueProps.queueName (IQueue.superProps d) = None"
      by (simp add: name dn')
    have short: "length m \<le> 80
             \<and> (if SQSQueueProps.fifo qprops = Some True
                 then \<exists>base. n = base @ ''.fifo'' \<and> m = base @ ''-dlq'' @ ''.fifo''
                 else m = n @ ''-dlq'')"
      if m: "SQSQueueProps.queueName (IQueue.superProps d) = Some m" for m
    proof -
      from m name dn' have ne: "n \<noteq> []" and len: "length n + 4 \<le> 80"
        and mm: "m = (if SQSQueueProps.fifo qprops = Some True
                      then take (length n - 5) n @ ''-dlq.fifo'' else n @ ''-dlq'')"
        by (auto split: if_splits)
      show ?thesis
      proof (cases "SQSQueueProps.fifo qprops = Some True")
        case False
        with mm len show ?thesis by simp
      next
        case True
        from deadLetterQueueName_Inr(2) [OF dn nodlq True] n ne
        have e: "endsWith n ''.fifo''"
          by (simp add: truthy_def)
        then have five: "5 \<le> length n"
          by (simp add: endsWith_def)
        from endsWith_split [OF e] have split: "n = take (length n - 5) n @ ''.fifo''"
          by (simp add: eval_nat_numeral)
        from mm True have m': "m = take (length n - 5) n @ ''-dlq'' @ ''.fifo''"
          by simp
        with five len have "length m \<le> 80"
          by simp
        with True split m' show ?thesis
          by auto
      qed
    qed
    from long short show ?thesis by blast
  qed
  from bucket queue show ?thesis by blast
qed

text \<open>The theorem at a bucket name of 60 characters and a queue name of 77, where the
  companions get no name, and at the names \<^verbatim>\<open>data\<close> and \<^verbatim>\<open>orders.fifo\<close>.\<close>

theorem derived_companion_name_witness:
  "BucketProps.bucketName (IBucket.superProps (the (IBucket.createdAccessLogsBucket (projr
       (new_Bucket ''B'' (Some (BucketProps (Some (replicate 60 (CHR ''a''))) None None None None None None None None [] None None None))))))) = None
   \<and> BucketProps.bucketName (IBucket.superProps (the (IBucket.createdAccessLogsBucket (projr
       (new_Bucket ''B'' (Some (BucketProps (Some ''data'') None None None None None None None None [] None None None))))))) = Some ''data-logs''
   \<and> SQSQueueProps.queueName (IQueue.superProps (the (IQueue.createdDeadLetterQueue (projr
       (new_SQSQueue ''Q'' (Some (SQSQueueProps (Some (replicate 77 (CHR ''a''))) None None None None None [] None None None None None))))))) = None
   \<and> SQSQueueProps.queueName (IQueue.superProps (the (IQueue.createdDeadLetterQueue (projr
       (new_SQSQueue ''Q'' (Some (SQSQueueProps (Some ''orders.fifo'') None None None None (Some True) [] None None None None None))))))) = Some ''orders-dlq.fifo''"
proof -
  let ?bl = "(BucketProps (Some (replicate 60 (CHR ''a''))) None None None None None None None None [] None None None)"
  let ?bs = "(BucketProps (Some ''data'') None None None None None None None None [] None None None)"
  let ?ql = "(SQSQueueProps (Some (replicate 77 (CHR ''a''))) None None None None None [] None None None None None)"
  let ?qs = "(SQSQueueProps (Some ''orders.fifo'') None None None None (Some True) [] None None None None None)"
  have bl: "new_Bucket ''B'' (Some ?bl) = Inr (projr (new_Bucket ''B'' (Some ?bl)))"
    and bs: "new_Bucket ''B'' (Some ?bs) = Inr (projr (new_Bucket ''B'' (Some ?bs)))"
    using new_Bucket_total [of "''B''" ?bl] new_Bucket_total [of "''B''" ?bs] by auto
  have bl_created: "IBucket.createdAccessLogsBucket (projr (new_Bucket ''B'' (Some ?bl)))
      = Some (the (IBucket.createdAccessLogsBucket (projr (new_Bucket ''B'' (Some ?bl)))))"
    using new_Bucket_createdAccessLogsBucket [OF bl] by simp
  have bs_created: "IBucket.createdAccessLogsBucket (projr (new_Bucket ''B'' (Some ?bs)))
      = Some (the (IBucket.createdAccessLogsBucket (projr (new_Bucket ''B'' (Some ?bs)))))"
    using new_Bucket_createdAccessLogsBucket [OF bs] by simp
  have bs_name: "BucketProps.bucketName (IBucket.superProps
      (the (IBucket.createdAccessLogsBucket (projr (new_Bucket ''B'' (Some ?bs)))))) = Some ''data-logs''"
    using new_Bucket_access_log_name [OF bs bs_created]
    by (simp add: accessLogBucketName_def truthy_def MAX_ALLOWED_BUCKET_NAME_LENGTH_def)
  have ql_name: "deadLetterQueueName ?ql = Inr None"
    by (simp add: deadLetterQueueName_def truthy_def MAX_ALLOWED_QUEUE_NAME_LENGTH_def)
  have qs_name: "deadLetterQueueName ?qs = Inr (Some ''orders-dlq.fifo'')"
    using deadLetterQueueName_fifo_suffix [of ?qs "''orders''"] by simp
  have ql: "new_SQSQueue ''Q'' (Some ?ql) = Inr (projr (new_SQSQueue ''Q'' (Some ?ql)))"
    and qs: "new_SQSQueue ''Q'' (Some ?qs) = Inr (projr (new_SQSQueue ''Q'' (Some ?qs)))"
    using new_SQSQueue_total [OF ql_name, of "''Q''"] new_SQSQueue_total [OF qs_name, of "''Q''"]
    by auto
  have ql_created: "IQueue.createdDeadLetterQueue (projr (new_SQSQueue ''Q'' (Some ?ql)))
      = Some (the (IQueue.createdDeadLetterQueue (projr (new_SQSQueue ''Q'' (Some ?ql)))))"
    using new_SQSQueue_createdDeadLetterQueue [OF ql] by simp
  have qs_created: "IQueue.createdDeadLetterQueue (projr (new_SQSQueue ''Q'' (Some ?qs)))
      = Some (the (IQueue.createdDeadLetterQueue (projr (new_SQSQueue ''Q'' (Some ?qs)))))"
    using new_SQSQueue_createdDeadLetterQueue [OF qs] by simp
  have qs_dname: "SQSQueueProps.queueName (IQueue.superProps
      (the (IQueue.createdDeadLetterQueue (projr (new_SQSQueue ''Q'' (Some ?qs)))))) = Some ''orders-dlq.fifo''"
    using created_dead_letter_queue_name [OF qs qs_created qs_name] .
  have bl_n: "BucketProps.bucketName ?bl = Some (replicate 60 (CHR ''a''))"
    and ql_n: "SQSQueueProps.queueName ?ql = Some (replicate 77 (CHR ''a''))"
    and bs_n: "BucketProps.bucketName ?bs = Some ''data''"
    and qs_n: "SQSQueueProps.queueName ?qs = Some ''orders.fifo''"
    by simp_all
  have len: "length (replicate 60 (CHR ''a'') @ ''-logs'') > 63"
      "length (replicate 77 (CHR ''a'') @ ''-dlq'') > 80"
    by simp_all
  note long_b = derived_companion_name [of "''B''" ?bl "''Q''" ?ql, THEN conjunct1, rule_format,
      OF conjI [OF bl conjI [OF bl_created bl_n]], THEN conjunct1, rule_format, OF len(1)]
  note long_q = derived_companion_name [of "''B''" ?bl "''Q''" ?ql, THEN conjunct2, rule_format,
      OF conjI [OF ql conjI [OF ql_created ql_n]], THEN conjunct1, rule_format, OF len(2)]
  note short_b = derived_companion_name [of "''B''" ?bs "''Q''" ?qs, THEN conjunct1, rule_format,
      OF conjI [OF bs conjI [OF bs_created bs_n]], THEN conjunct2, rule_format, OF bs_name]
  note short_q = derived_companion_name [of "''B''" ?bs "''Q''" ?qs, THEN conjunct2, rule_format,
      OF conjI [OF qs conjI [OF qs_created qs_n]], THEN conjunct2, rule_format, OF qs_dname]
  from short_b have "''data-logs'' = ''data'' @ ''-logs''" by simp
  from short_q have "length ''orders-dlq.fifo'' \<le> 80" by simp
  from long_b bs_name long_q qs_dname show ?thesis by simp
qed

section \<open>Properties of DynamoDBTable\<close>

lemma new_DynamoDBTable_missing_scaling:
  assumes "DynamoDBTableProps.billingMode props = Some PROVISIONED"
    and "DynamoDBTableProps.readScalingProps props = None
           \<or> DynamoDBTableProps.writeScalingProps props = None"
  shows "new_DynamoDBTable (Some props) =
           Inl (Error ''For provisioned DynamoDB table, auto-scaling readScalingProps & writeScalingProps are required.'')"
  using assms by (simp add: new_DynamoDBTable_def Let_def)

lemma new_DynamoDBTable_provisioned:
  assumes "DynamoDBTableProps.billingMode props = Some PROVISIONED"
    and "DynamoDBTableProps.readScalingProps props = Some r"
    and "DynamoDBTableProps.writeScalingProps props = Some w"
  shows "new_DynamoDBTable (Some props) =
           Inr \<lparr>DynamoDBTable.superProps = props
                  \<lparr>DynamoDBTableProps.billingMode := Some PROVISIONED,
                   DynamoDBTableProps.encryption :=
                     Some (case DynamoDBTableProps.encryption props of
                             Some e \<Rightarrow> e | None \<Rightarrow> CUSTOMER_MANAGED),
                   DynamoDBTableProps.pointInTimeRecovery :=
                     Some (DynamoDBTableProps.pointInTimeRecovery props \<noteq> Some False),
                   DynamoDBTableProps.deletionProtection :=
                     Some (DynamoDBTableProps.deletionProtection props \<noteq> Some False),
                   DynamoDBTableProps.readCapacity :=
                     Some (case DynamoDBTableProps.readCapacity props of
                             Some c \<Rightarrow> c | None \<Rightarrow> minCapacity r),
                   DynamoDBTableProps.writeCapacity :=
                     Some (case DynamoDBTableProps.writeCapacity props of
                             Some c \<Rightarrow> c | None \<Rightarrow> minCapacity w)\<rparr>,
                usesProvisionedBillingMode = True,
                globalSecondaryIndexes = [],
                autoScaling = [(TableReadCapacity, r, DEFAULT_UTILIZATION_SCALING_PROPS),
                               (TableWriteCapacity, w, DEFAULT_UTILIZATION_SCALING_PROPS)]\<rparr>"
  using assms
  by (auto simp: new_DynamoDBTable_def Let_def spread_def unsetOrZero_def autoScale_def
        split: option.splits)






section \<open>Fields the caller set\<close>

text \<open>A field that is set survives the spread, and survives a default that only applies
  to an unset field.\<close>

lemma spread_frame: "own = None \<or> spread dflt own = own"
  by (cases own) (simp_all add: spread_def)

lemma new_Bucket_superProps:
  assumes "new_Bucket i (Some props) = Inr b"
  shows "\<exists>bpa enc key logging rules logs ver.
           IBucket.superProps b = Bucket_updatedProps bpa enc key logging rules logs ver props"
proof -
  have "\<exists>bpa enc key logging rules logs ver.
          IBucket.superProps (projr (new_Bucket i (Some props)))
            = Bucket_updatedProps bpa enc key logging rules logs ver props"
    unfolding new_Bucket_eq sum.sel IBucket.sel by blast
  then show ?thesis unfolding assms sum.sel .
qed

lemma new_SQSQueue_superProps:
  assumes "new_SQSQueue i (Some props) = Inr q"
  shows "\<exists>enc key dlq. IQueue.superProps q = SQSQueue_superProps enc key dlq props"
proof -
  from new_SQSQueue_Inr_name [OF assms] obtain dn where "deadLetterQueueName props = Inr dn"
    by blast
  from new_SQSQueue_eq [OF this, of i]
  have "\<exists>enc key dlq. IQueue.superProps (projr (new_SQSQueue i (Some props)))
          = SQSQueue_superProps enc key dlq props"
    unfolding sum.sel IQueue.sel by (metis sum.sel(2) IQueue.sel(3))
  then show ?thesis unfolding assms sum.sel .
qed

lemma new_AccessLogsBucket_eq:
  "new_AccessLogsBucket i props =
     Inr (Bucket i
            (Bucket_updatedProps BLOCK_ALL S3_MANAGED None False
               (BucketProps.lifecycleRules (AccessLogsBucket_updatedProps props)) None True
               (AccessLogsBucket_updatedProps props))
            None None None
            (if BucketProps.requireSecureTransport props \<noteq> Some False
             then [secureTransportBucketStatement i] else []))"
proof -
  have "BucketProps.enableAccessLogging (AccessLogsBucket_updatedProps props) = Some False
          \<or> BucketProps.serverAccessLogsBucket (AccessLogsBucket_updatedProps props) \<noteq> None"
    by (simp add: AccessLogsBucket_updatedProps_def)
  from new_Bucket_without_logs [OF this, of i] show ?thesis
    unfolding new_AccessLogsBucket_def
    by (simp add: AccessLogsBucket_updatedProps_def split: option.splits)
qed

lemma bool_frame: "own = None \<or> Some (own \<noteq> Some False) = own"
  by (cases own) auto

lemma case_frame: "own = None \<or> Some (case own of Some v \<Rightarrow> v | None \<Rightarrow> dflt) = own"
  by (cases own) auto

lemma new_DynamoDBTable_not_provisioned:
  assumes "DynamoDBTableProps.billingMode props \<noteq> Some PROVISIONED"
  shows "new_DynamoDBTable (Some props) =
           Inr \<lparr>DynamoDBTable.superProps = props
                  \<lparr>DynamoDBTableProps.billingMode :=
                     Some (case DynamoDBTableProps.billingMode props of
                             Some m \<Rightarrow> m | None \<Rightarrow> PAY_PER_REQUEST),
                   DynamoDBTableProps.encryption :=
                     Some (case DynamoDBTableProps.encryption props of
                             Some e \<Rightarrow> e | None \<Rightarrow> CUSTOMER_MANAGED),
                   DynamoDBTableProps.pointInTimeRecovery :=
                     Some (DynamoDBTableProps.pointInTimeRecovery props \<noteq> Some False),
                   DynamoDBTableProps.deletionProtection :=
                     Some (DynamoDBTableProps.deletionProtection props \<noteq> Some False)\<rparr>,
                usesProvisionedBillingMode = False,
                globalSecondaryIndexes = [],
                autoScaling = []\<rparr>"
  using assms
  by (auto simp: new_DynamoDBTable_def Let_def spread_def split: option.splits)

text \<open>
  Claim C8, as the code has it.  \<^verbatim>\<open>Bucket\<close>, \<^verbatim>\<open>SQSQueue\<close>, \<^verbatim>\<open>SnsTopic\<close> and
  \<^verbatim>\<open>DynamoDBTable\<close> hand every field that is set in their props to \<^verbatim>\<open>super\<close>
  unchanged: a field they never default is handed on as it is, set or not, and a field
  they default differs from the props only where the props leave it unset.
  \<^verbatim>\<open>AlbFargateService\<close> hands on the cluster and the task definition, a platform version
  and a grace period that are set, a count or percentage that is set and not 0, and a
  service name that is set and not empty.  \<^verbatim>\<open>AccessLogsBucket\<close> hands on the bucket name
  and the resolved \<^verbatim>\<open>requireSecureTransport\<close> and fixes the encryption, the versioning,
  the public access block, the object ownership, the access logging and the log prefix.
\<close>

theorem explicit_fields_forwarded:
  "(\<exists>b. new_Bucket i (Some bprops) = Inr b
      \<and> BucketProps.bucketName (IBucket.superProps b) = BucketProps.bucketName bprops
      \<and> BucketProps.serverAccessLogsPrefix (IBucket.superProps b) = BucketProps.serverAccessLogsPrefix bprops
      \<and> BucketProps.objectOwnership (IBucket.superProps b) = BucketProps.objectOwnership bprops
      \<and> BucketProps.otherBucketProps (IBucket.superProps b) = BucketProps.otherBucketProps bprops
      \<and> BucketProps.requireSecureTransport (IBucket.superProps b) = BucketProps.requireSecureTransport bprops
      \<and> BucketProps.enableDefaultLifecycleRules (IBucket.superProps b) = BucketProps.enableDefaultLifecycleRules bprops
      \<and> (BucketProps.encryption bprops = None
          \<or> BucketProps.encryption (IBucket.superProps b) = BucketProps.encryption bprops)
      \<and> (BucketProps.encryptionKey bprops = None
          \<or> BucketProps.encryptionKey (IBucket.superProps b) = BucketProps.encryptionKey bprops)
      \<and> (BucketProps.serverAccessLogsBucket bprops = None
          \<or> BucketProps.serverAccessLogsBucket (IBucket.superProps b) = BucketProps.serverAccessLogsBucket bprops)
      \<and> (BucketProps.lifecycleRules bprops = None
          \<or> BucketProps.lifecycleRules (IBucket.superProps b) = BucketProps.lifecycleRules bprops)
      \<and> (BucketProps.versioned bprops = None
          \<or> BucketProps.versioned (IBucket.superProps b) = BucketProps.versioned bprops)
      \<and> (BucketProps.blockPublicAccess bprops = None
          \<or> BucketProps.blockPublicAccess (IBucket.superProps b) = BucketProps.blockPublicAccess bprops)
      \<and> (BucketProps.enableAccessLogging bprops = None
          \<or> BucketProps.enableAccessLogging (IBucket.superProps b) = BucketProps.enableAccessLogging bprops))
   \<and> (\<forall>q. new_SQSQueue j (Some qprops) = Inr q \<longrightarrow>
        SQSQueueProps.queueName (IQueue.superProps q) = SQSQueueProps.queueName qprops
      \<and> SQSQueueProps.fifo (IQueue.superProps q) = SQSQueueProps.fifo qprops
      \<and> SQSQueueProps.otherQueueProps (IQueue.superProps q) = SQSQueueProps.otherQueueProps qprops
      \<and> SQSQueueProps.requireSecureTransport (IQueue.superProps q) = SQSQueueProps.requireSecureTransport qprops
      \<and> SQSQueueProps.principalsAllowedToSend (IQueue.superProps q) = SQSQueueProps.principalsAllowedToSend qprops
      \<and> SQSQueueProps.principalsAllowedToConsume (IQueue.superProps q) = SQSQueueProps.principalsAllowedToConsume qprops
      \<and> SQSQueueProps.enableDeadLetterQueue (IQueue.superProps q) = SQSQueueProps.enableDeadLetterQueue qprops
      \<and> SQSQueueProps.dlqMaxReceiveCount (IQueue.superProps q) = SQSQueueProps.dlqMaxReceiveCount qprops
      \<and> (SQSQueueProps.encryption qprops = None
          \<or> SQSQueueProps.encryption (IQueue.superProps q) = SQSQueueProps.encryption qprops)
      \<and> (SQSQueueProps.encryptionMasterKey qprops = None
          \<or> SQSQueueProps.encryptionMasterKey (IQueue.superProps q) = SQSQueueProps.encryptionMasterKey qprops)
      \<and> (SQSQueueProps.deadLetterQueue qprops = None
          \<or> SQSQueueProps.deadLetterQueue (IQueue.superProps q) = SQSQueueProps.deadLetterQueue qprops)
      \<and> (SQSQueueProps.retentionPeriod qprops = None
          \<or> SQSQueueProps.retentionPeriod (IQueue.superProps q) = SQSQueueProps.retentionPeriod qprops))
   \<and> (\<exists>t. new_SnsTopic k (Some tprops) = Inr t
      \<and> SnsTopic.superProps t =
          tprops\<lparr>SnsTopicProps.masterKey := SnsTopicProps.masterKey (SnsTopic.superProps t)\<rparr>
      \<and> (SnsTopicProps.masterKey tprops = None
          \<or> SnsTopicProps.masterKey (SnsTopic.superProps t) = SnsTopicProps.masterKey tprops))
   \<and> (\<forall>t. new_DynamoDBTable (Some dprops) = Inr t \<longrightarrow>
        DynamoDBTable.superProps t =
          dprops\<lparr>DynamoDBTableProps.billingMode := DynamoDBTableProps.billingMode (DynamoDBTable.superProps t),
               DynamoDBTableProps.encryption := DynamoDBTableProps.encryption (DynamoDBTable.superProps t),
               DynamoDBTableProps.pointInTimeRecovery := DynamoDBTableProps.pointInTimeRecovery (DynamoDBTable.superProps t),
               DynamoDBTableProps.deletionProtection := DynamoDBTableProps.deletionProtection (DynamoDBTable.superProps t),
               DynamoDBTableProps.readCapacity := DynamoDBTableProps.readCapacity (DynamoDBTable.superProps t),
               DynamoDBTableProps.writeCapacity := DynamoDBTableProps.writeCapacity (DynamoDBTable.superProps t)\<rparr>
      \<and> (DynamoDBTableProps.billingMode dprops = None
          \<or> DynamoDBTableProps.billingMode (DynamoDBTable.superProps t) = DynamoDBTableProps.billingMode dprops)
      \<and> (DynamoDBTableProps.encryption dprops = None
          \<or> DynamoDBTableProps.encryption (DynamoDBTable.superProps t) = DynamoDBTableProps.encryption dprops)
      \<and> (DynamoDBTableProps.pointInTimeRecovery dprops = None
          \<or> DynamoDBTableProps.pointInTimeRecovery (DynamoDBTable.superProps t) = DynamoDBTableProps.pointInTimeRecovery dprops)
      \<and> (DynamoDBTableProps.deletionProtection dprops = None
          \<or> DynamoDBTableProps.deletionProtection (DynamoDBTable.superProps t) = DynamoDBTableProps.deletionProtection dprops)
      \<and> (DynamoDBTableProps.readCapacity dprops = None
          \<or> DynamoDBTableProps.readCapacity (DynamoDBTable.superProps t) = DynamoDBTableProps.readCapacity dprops)
      \<and> (DynamoDBTableProps.writeCapacity dprops = None
          \<or> DynamoDBTableProps.writeCapacity (DynamoDBTable.superProps t) = DynamoDBTableProps.writeCapacity dprops))
   \<and> (FargateServiceProps.cluster (AlbFargateService_serviceProps fprops) = ecsCluster fprops
      \<and> FargateServiceProps.taskDefinition (AlbFargateService_serviceProps fprops)
          = AlbFargateServiceProps.taskDefinition fprops
      \<and> (AlbFargateServiceProps.platformVersion fprops = None
          \<or> FargateServiceProps.platformVersion (AlbFargateService_serviceProps fprops)
              = AlbFargateServiceProps.platformVersion fprops)
      \<and> (AlbFargateServiceProps.healthCheckGracePeriod fprops = None
          \<or> FargateServiceProps.healthCheckGracePeriod (AlbFargateService_serviceProps fprops)
              = AlbFargateServiceProps.healthCheckGracePeriod fprops)
      \<and> (AlbFargateServiceProps.desiredCount fprops \<in> {None, Some 0}
          \<or> FargateServiceProps.desiredCount (AlbFargateService_serviceProps fprops)
              = AlbFargateServiceProps.desiredCount fprops)
      \<and> (AlbFargateServiceProps.minHealthyPercent fprops \<in> {None, Some 0}
          \<or> FargateServiceProps.minHealthyPercent (AlbFargateService_serviceProps fprops)
              = AlbFargateServiceProps.minHealthyPercent fprops)
      \<and> (AlbFargateServiceProps.maxHealthyPercent fprops \<in> {None, Some 0}
          \<or> FargateServiceProps.maxHealthyPercent (AlbFargateService_serviceProps fprops)
              = AlbFargateServiceProps.maxHealthyPercent fprops)
      \<and> (AlbFargateServiceProps.serviceName fprops \<in> {None, Some []}
          \<or> FargateServiceProps.serviceName (AlbFargateService_serviceProps fprops)
              = AlbFargateServiceProps.serviceName fprops))
   \<and> (\<exists>l. new_AccessLogsBucket m lprops = Inr l
      \<and> BucketProps.bucketName (IBucket.superProps l) = BucketProps.bucketName lprops
      \<and> BucketProps.requireSecureTransport (IBucket.superProps l)
          = Some (BucketProps.requireSecureTransport lprops \<noteq> Some False)
      \<and> BucketProps.encryption (IBucket.superProps l) = Some S3_MANAGED
      \<and> BucketProps.versioned (IBucket.superProps l) = Some True
      \<and> BucketProps.blockPublicAccess (IBucket.superProps l) = Some BLOCK_ALL
      \<and> BucketProps.objectOwnership (IBucket.superProps l) = Some BUCKET_OWNER_PREFERRED
      \<and> BucketProps.enableAccessLogging (IBucket.superProps l) = Some False
      \<and> BucketProps.serverAccessLogsPrefix (IBucket.superProps l) = Some ''logs/'')"
proof -
  have bucket: "(\<exists>b. new_Bucket i (Some bprops) = Inr b
      \<and> BucketProps.bucketName (IBucket.superProps b) = BucketProps.bucketName bprops
      \<and> BucketProps.serverAccessLogsPrefix (IBucket.superProps b) = BucketProps.serverAccessLogsPrefix bprops
      \<and> BucketProps.objectOwnership (IBucket.superProps b) = BucketProps.objectOwnership bprops
      \<and> BucketProps.otherBucketProps (IBucket.superProps b) = BucketProps.otherBucketProps bprops
      \<and> BucketProps.requireSecureTransport (IBucket.superProps b) = BucketProps.requireSecureTransport bprops
      \<and> BucketProps.enableDefaultLifecycleRules (IBucket.superProps b) = BucketProps.enableDefaultLifecycleRules bprops
      \<and> (BucketProps.encryption bprops = None
          \<or> BucketProps.encryption (IBucket.superProps b) = BucketProps.encryption bprops)
      \<and> (BucketProps.encryptionKey bprops = None
          \<or> BucketProps.encryptionKey (IBucket.superProps b) = BucketProps.encryptionKey bprops)
      \<and> (BucketProps.serverAccessLogsBucket bprops = None
          \<or> BucketProps.serverAccessLogsBucket (IBucket.superProps b) = BucketProps.serverAccessLogsBucket bprops)
      \<and> (BucketProps.lifecycleRules bprops = None
          \<or> BucketProps.lifecycleRules (IBucket.superProps b) = BucketProps.lifecycleRules bprops)
      \<and> (BucketProps.versioned bprops = None
          \<or> BucketProps.versioned (IBucket.superProps b) = BucketProps.versioned bprops)
      \<and> (BucketProps.blockPublicAccess bprops = None
          \<or> BucketProps.blockPublicAccess (IBucket.superProps b) = BucketProps.blockPublicAccess bprops)
      \<and> (BucketProps.enableAccessLogging bprops = None
          \<or> BucketProps.enableAccessLogging (IBucket.superProps b) = BucketProps.enableAccessLogging bprops))"
  proof -
    obtain b where b: "new_Bucket i (Some bprops) = Inr b"
      using new_Bucket_total by blast
    from new_Bucket_superProps [OF b] obtain bpa enc key logging rules logs ver
      where sp: "IBucket.superProps b = Bucket_updatedProps bpa enc key logging rules logs ver bprops"
      by blast
    have "BucketProps.bucketName (IBucket.superProps b) = BucketProps.bucketName bprops
      \<and> BucketProps.serverAccessLogsPrefix (IBucket.superProps b) = BucketProps.serverAccessLogsPrefix bprops
      \<and> BucketProps.objectOwnership (IBucket.superProps b) = BucketProps.objectOwnership bprops
      \<and> BucketProps.otherBucketProps (IBucket.superProps b) = BucketProps.otherBucketProps bprops
      \<and> BucketProps.requireSecureTransport (IBucket.superProps b) = BucketProps.requireSecureTransport bprops
      \<and> BucketProps.enableDefaultLifecycleRules (IBucket.superProps b) = BucketProps.enableDefaultLifecycleRules bprops
      \<and> (BucketProps.encryption bprops = None
          \<or> BucketProps.encryption (IBucket.superProps b) = BucketProps.encryption bprops)
      \<and> (BucketProps.encryptionKey bprops = None
          \<or> BucketProps.encryptionKey (IBucket.superProps b) = BucketProps.encryptionKey bprops)
      \<and> (BucketProps.serverAccessLogsBucket bprops = None
          \<or> BucketProps.serverAccessLogsBucket (IBucket.superProps b) = BucketProps.serverAccessLogsBucket bprops)
      \<and> (BucketProps.lifecycleRules bprops = None
          \<or> BucketProps.lifecycleRules (IBucket.superProps b) = BucketProps.lifecycleRules bprops)
      \<and> (BucketProps.versioned bprops = None
          \<or> BucketProps.versioned (IBucket.superProps b) = BucketProps.versioned bprops)
      \<and> (BucketProps.blockPublicAccess bprops = None
          \<or> BucketProps.blockPublicAccess (IBucket.superProps b) = BucketProps.blockPublicAccess bprops)
      \<and> (BucketProps.enableAccessLogging bprops = None
          \<or> BucketProps.enableAccessLogging (IBucket.superProps b) = BucketProps.enableAccessLogging bprops)"
      unfolding sp Bucket_updatedProps_def BucketProps.sel
      by (intro conjI refl spread_frame)
    with b show ?thesis by blast
  qed
  have queue: "(\<forall>q. new_SQSQueue j (Some qprops) = Inr q \<longrightarrow>
        SQSQueueProps.queueName (IQueue.superProps q) = SQSQueueProps.queueName qprops
      \<and> SQSQueueProps.fifo (IQueue.superProps q) = SQSQueueProps.fifo qprops
      \<and> SQSQueueProps.otherQueueProps (IQueue.superProps q) = SQSQueueProps.otherQueueProps qprops
      \<and> SQSQueueProps.requireSecureTransport (IQueue.superProps q) = SQSQueueProps.requireSecureTransport qprops
      \<and> SQSQueueProps.principalsAllowedToSend (IQueue.superProps q) = SQSQueueProps.principalsAllowedToSend qprops
      \<and> SQSQueueProps.principalsAllowedToConsume (IQueue.superProps q) = SQSQueueProps.principalsAllowedToConsume qprops
      \<and> SQSQueueProps.enableDeadLetterQueue (IQueue.superProps q) = SQSQueueProps.enableDeadLetterQueue qprops
      \<and> SQSQueueProps.dlqMaxReceiveCount (IQueue.superProps q) = SQSQueueProps.dlqMaxReceiveCount qprops
      \<and> (SQSQueueProps.encryption qprops = None
          \<or> SQSQueueProps.encryption (IQueue.superProps q) = SQSQueueProps.encryption qprops)
      \<and> (SQSQueueProps.encryptionMasterKey qprops = None
          \<or> SQSQueueProps.encryptionMasterKey (IQueue.superProps q) = SQSQueueProps.encryptionMasterKey qprops)
      \<and> (SQSQueueProps.deadLetterQueue qprops = None
          \<or> SQSQueueProps.deadLetterQueue (IQueue.superProps q) = SQSQueueProps.deadLetterQueue qprops)
      \<and> (SQSQueueProps.retentionPeriod qprops = None
          \<or> SQSQueueProps.retentionPeriod (IQueue.superProps q) = SQSQueueProps.retentionPeriod qprops))"
  proof (intro allI impI)
    fix q assume q: "new_SQSQueue j (Some qprops) = Inr q"
    from new_SQSQueue_superProps [OF q] obtain enc key dlq
      where sp: "IQueue.superProps q = SQSQueue_superProps enc key dlq qprops"
      by blast
    show "SQSQueueProps.queueName (IQueue.superProps q) = SQSQueueProps.queueName qprops
      \<and> SQSQueueProps.fifo (IQueue.superProps q) = SQSQueueProps.fifo qprops
      \<and> SQSQueueProps.otherQueueProps (IQueue.superProps q) = SQSQueueProps.otherQueueProps qprops
      \<and> SQSQueueProps.requireSecureTransport (IQueue.superProps q) = SQSQueueProps.requireSecureTransport qprops
      \<and> SQSQueueProps.principalsAllowedToSend (IQueue.superProps q) = SQSQueueProps.principalsAllowedToSend qprops
      \<and> SQSQueueProps.principalsAllowedToConsume (IQueue.superProps q) = SQSQueueProps.principalsAllowedToConsume qprops
      \<and> SQSQueueProps.enableDeadLetterQueue (IQueue.superProps q) = SQSQueueProps.enableDeadLetterQueue qprops
      \<and> SQSQueueProps.dlqMaxReceiveCount (IQueue.superProps q) = SQSQueueProps.dlqMaxReceiveCount qprops
      \<and> (SQSQueueProps.encryption qprops = None
          \<or> SQSQueueProps.encryption (IQueue.superProps q) = SQSQueueProps.encryption qprops)
      \<and> (SQSQueueProps.encryptionMasterKey qprops = None
          \<or> SQSQueueProps.encryptionMasterKey (IQueue.superProps q) = SQSQueueProps.encryptionMasterKey qprops)
      \<and> (SQSQueueProps.deadLetterQueue qprops = None
          \<or> SQSQueueProps.deadLetterQueue (IQueue.superProps q) = SQSQueueProps.deadLetterQueue qprops)
      \<and> (SQSQueueProps.retentionPeriod qprops = None
          \<or> SQSQueueProps.retentionPeriod (IQueue.superProps q) = SQSQueueProps.retentionPeriod qprops)"
      unfolding sp SQSQueue_superProps_def SQSQueueProps.sel
      by (intro conjI refl spread_frame)
  qed
  have topic: "(\<exists>t. new_SnsTopic k (Some tprops) = Inr t
      \<and> SnsTopic.superProps t =
          tprops\<lparr>SnsTopicProps.masterKey := SnsTopicProps.masterKey (SnsTopic.superProps t)\<rparr>
      \<and> (SnsTopicProps.masterKey tprops = None
          \<or> SnsTopicProps.masterKey (SnsTopic.superProps t) = SnsTopicProps.masterKey tprops))"
    unfolding new_SnsTopic_Some by (simp add: spread_def split: option.splits)
  have table: "(\<forall>t. new_DynamoDBTable (Some dprops) = Inr t \<longrightarrow>
        DynamoDBTable.superProps t =
          dprops\<lparr>DynamoDBTableProps.billingMode := DynamoDBTableProps.billingMode (DynamoDBTable.superProps t),
               DynamoDBTableProps.encryption := DynamoDBTableProps.encryption (DynamoDBTable.superProps t),
               DynamoDBTableProps.pointInTimeRecovery := DynamoDBTableProps.pointInTimeRecovery (DynamoDBTable.superProps t),
               DynamoDBTableProps.deletionProtection := DynamoDBTableProps.deletionProtection (DynamoDBTable.superProps t),
               DynamoDBTableProps.readCapacity := DynamoDBTableProps.readCapacity (DynamoDBTable.superProps t),
               DynamoDBTableProps.writeCapacity := DynamoDBTableProps.writeCapacity (DynamoDBTable.superProps t)\<rparr>
      \<and> (DynamoDBTableProps.billingMode dprops = None
          \<or> DynamoDBTableProps.billingMode (DynamoDBTable.superProps t) = DynamoDBTableProps.billingMode dprops)
      \<and> (DynamoDBTableProps.encryption dprops = None
          \<or> DynamoDBTableProps.encryption (DynamoDBTable.superProps t) = DynamoDBTableProps.encryption dprops)
      \<and> (DynamoDBTableProps.pointInTimeRecovery dprops = None
          \<or> DynamoDBTableProps.pointInTimeRecovery (DynamoDBTable.superProps t) = DynamoDBTableProps.pointInTimeRecovery dprops)
      \<and> (DynamoDBTableProps.deletionProtection dprops = None
          \<or> DynamoDBTableProps.deletionProtection (DynamoDBTable.superProps t) = DynamoDBTableProps.deletionProtection dprops)
      \<and> (DynamoDBTableProps.readCapacity dprops = None
          \<or> DynamoDBTableProps.readCapacity (DynamoDBTable.superProps t) = DynamoDBTableProps.readCapacity dprops)
      \<and> (DynamoDBTableProps.writeCapacity dprops = None
          \<or> DynamoDBTableProps.writeCapacity (DynamoDBTable.superProps t) = DynamoDBTableProps.writeCapacity dprops))"
  proof (intro allI impI)
    fix t assume t: "new_DynamoDBTable (Some dprops) = Inr t"
    show "DynamoDBTable.superProps t =
          dprops\<lparr>DynamoDBTableProps.billingMode := DynamoDBTableProps.billingMode (DynamoDBTable.superProps t),
               DynamoDBTableProps.encryption := DynamoDBTableProps.encryption (DynamoDBTable.superProps t),
               DynamoDBTableProps.pointInTimeRecovery := DynamoDBTableProps.pointInTimeRecovery (DynamoDBTable.superProps t),
               DynamoDBTableProps.deletionProtection := DynamoDBTableProps.deletionProtection (DynamoDBTable.superProps t),
               DynamoDBTableProps.readCapacity := DynamoDBTableProps.readCapacity (DynamoDBTable.superProps t),
               DynamoDBTableProps.writeCapacity := DynamoDBTableProps.writeCapacity (DynamoDBTable.superProps t)\<rparr>
      \<and> (DynamoDBTableProps.billingMode dprops = None
          \<or> DynamoDBTableProps.billingMode (DynamoDBTable.superProps t) = DynamoDBTableProps.billingMode dprops)
      \<and> (DynamoDBTableProps.encryption dprops = None
          \<or> DynamoDBTableProps.encryption (DynamoDBTable.superProps t) = DynamoDBTableProps.encryption dprops)
      \<and> (DynamoDBTableProps.pointInTimeRecovery dprops = None
          \<or> DynamoDBTableProps.pointInTimeRecovery (DynamoDBTable.superProps t) = DynamoDBTableProps.pointInTimeRecovery dprops)
      \<and> (DynamoDBTableProps.deletionProtection dprops = None
          \<or> DynamoDBTableProps.deletionProtection (DynamoDBTable.superProps t) = DynamoDBTableProps.deletionProtection dprops)
      \<and> (DynamoDBTableProps.readCapacity dprops = None
          \<or> DynamoDBTableProps.readCapacity (DynamoDBTable.superProps t) = DynamoDBTableProps.readCapacity dprops)
      \<and> (DynamoDBTableProps.writeCapacity dprops = None
          \<or> DynamoDBTableProps.writeCapacity (DynamoDBTable.superProps t) = DynamoDBTableProps.writeCapacity dprops)"
    proof (cases "DynamoDBTableProps.billingMode dprops = Some PROVISIONED")
      case True
      with t new_DynamoDBTable_missing_scaling [OF True]
      obtain r w where "DynamoDBTableProps.readScalingProps dprops = Some r"
        "DynamoDBTableProps.writeScalingProps dprops = Some w"
        by (cases "DynamoDBTableProps.readScalingProps dprops";
            cases "DynamoDBTableProps.writeScalingProps dprops") auto
      from new_DynamoDBTable_provisioned [OF True this] t
      have "t = projr (new_DynamoDBTable (Some dprops))"
        and sp: "DynamoDBTable.superProps t = dprops
                  \<lparr>DynamoDBTableProps.billingMode := Some PROVISIONED,
                   DynamoDBTableProps.encryption :=
                     Some (case DynamoDBTableProps.encryption dprops of
                             Some e \<Rightarrow> e | None \<Rightarrow> CUSTOMER_MANAGED),
                   DynamoDBTableProps.pointInTimeRecovery :=
                     Some (DynamoDBTableProps.pointInTimeRecovery dprops \<noteq> Some False),
                   DynamoDBTableProps.deletionProtection :=
                     Some (DynamoDBTableProps.deletionProtection dprops \<noteq> Some False),
                   DynamoDBTableProps.readCapacity :=
                     Some (case DynamoDBTableProps.readCapacity dprops of
                             Some c \<Rightarrow> c | None \<Rightarrow> minCapacity r),
                   DynamoDBTableProps.writeCapacity :=
                     Some (case DynamoDBTableProps.writeCapacity dprops of
                             Some c \<Rightarrow> c | None \<Rightarrow> minCapacity w)\<rparr>"
        by auto
      show ?thesis
        unfolding sp by (simp add: True bool_frame case_frame)
    next
      case False
      from new_DynamoDBTable_not_provisioned [OF False] t
      have sp: "DynamoDBTable.superProps t = dprops
                  \<lparr>DynamoDBTableProps.billingMode :=
                     Some (case DynamoDBTableProps.billingMode dprops of
                             Some m \<Rightarrow> m | None \<Rightarrow> PAY_PER_REQUEST),
                   DynamoDBTableProps.encryption :=
                     Some (case DynamoDBTableProps.encryption dprops of
                             Some e \<Rightarrow> e | None \<Rightarrow> CUSTOMER_MANAGED),
                   DynamoDBTableProps.pointInTimeRecovery :=
                     Some (DynamoDBTableProps.pointInTimeRecovery dprops \<noteq> Some False),
                   DynamoDBTableProps.deletionProtection :=
                     Some (DynamoDBTableProps.deletionProtection dprops \<noteq> Some False)\<rparr>"
        by auto
      show ?thesis
        unfolding sp by (simp add: bool_frame case_frame)
    qed
  qed
  have service: "(FargateServiceProps.cluster (AlbFargateService_serviceProps fprops) = ecsCluster fprops
      \<and> FargateServiceProps.taskDefinition (AlbFargateService_serviceProps fprops)
          = AlbFargateServiceProps.taskDefinition fprops
      \<and> (AlbFargateServiceProps.platformVersion fprops = None
          \<or> FargateServiceProps.platformVersion (AlbFargateService_serviceProps fprops)
              = AlbFargateServiceProps.platformVersion fprops)
      \<and> (AlbFargateServiceProps.healthCheckGracePeriod fprops = None
          \<or> FargateServiceProps.healthCheckGracePeriod (AlbFargateService_serviceProps fprops)
              = AlbFargateServiceProps.healthCheckGracePeriod fprops)
      \<and> (AlbFargateServiceProps.desiredCount fprops \<in> {None, Some 0}
          \<or> FargateServiceProps.desiredCount (AlbFargateService_serviceProps fprops)
              = AlbFargateServiceProps.desiredCount fprops)
      \<and> (AlbFargateServiceProps.minHealthyPercent fprops \<in> {None, Some 0}
          \<or> FargateServiceProps.minHealthyPercent (AlbFargateService_serviceProps fprops)
              = AlbFargateServiceProps.minHealthyPercent fprops)
      \<and> (AlbFargateServiceProps.maxHealthyPercent fprops \<in> {None, Some 0}
          \<or> FargateServiceProps.maxHealthyPercent (AlbFargateService_serviceProps fprops)
              = AlbFargateServiceProps.maxHealthyPercent fprops)
      \<and> (AlbFargateServiceProps.serviceName fprops \<in> {None, Some []}
          \<or> FargateServiceProps.serviceName (AlbFargateService_serviceProps fprops)
              = AlbFargateServiceProps.serviceName fprops))"
    by (auto simp: AlbFargateService_serviceProps_def numberOr_def truthy_def
          split: option.splits)
  have logs: "(\<exists>l. new_AccessLogsBucket m lprops = Inr l
      \<and> BucketProps.bucketName (IBucket.superProps l) = BucketProps.bucketName lprops
      \<and> BucketProps.requireSecureTransport (IBucket.superProps l)
          = Some (BucketProps.requireSecureTransport lprops \<noteq> Some False)
      \<and> BucketProps.encryption (IBucket.superProps l) = Some S3_MANAGED
      \<and> BucketProps.versioned (IBucket.superProps l) = Some True
      \<and> BucketProps.blockPublicAccess (IBucket.superProps l) = Some BLOCK_ALL
      \<and> BucketProps.objectOwnership (IBucket.superProps l) = Some BUCKET_OWNER_PREFERRED
      \<and> BucketProps.enableAccessLogging (IBucket.superProps l) = Some False
      \<and> BucketProps.serverAccessLogsPrefix (IBucket.superProps l) = Some ''logs/'')"
    unfolding new_AccessLogsBucket_eq
    by (simp add: Bucket_updatedProps_def AccessLogsBucket_updatedProps_def spread_def
          split: option.splits)
  show ?thesis
    by (rule conjI [OF bucket conjI [OF queue conjI [OF topic conjI [OF table
          conjI [OF service logs]]]]])
qed

text \<open>The theorem at props that set an encryption, a versioning flag, a retention period,
  a master key, a recovery flag, a count, a percentage and a bucket name.\<close>

theorem explicit_fields_forwarded_witness:
  "BucketProps.encryption (IBucket.superProps (projr (new_Bucket ''B'' (Some
       (BucketProps (Some ''data'') (Some S3_MANAGED) None None None None (Some False) None None []
        None (Some False) None))))) = Some S3_MANAGED
   \<and> BucketProps.versioned (IBucket.superProps (projr (new_Bucket ''B'' (Some
       (BucketProps (Some ''data'') (Some S3_MANAGED) None None None None (Some False) None None []
        None (Some False) None))))) = Some False
   \<and> SQSQueueProps.encryption (IQueue.superProps (projr (new_SQSQueue ''Q'' (Some
       (SQSQueueProps (Some ''orders'') (Some QueueEncryption.KMS_MANAGED) None None (Some (Duration_days 4)) None []
        None None None None None))))) = Some QueueEncryption.KMS_MANAGED
   \<and> SQSQueueProps.retentionPeriod (IQueue.superProps (projr (new_SQSQueue ''Q'' (Some
       (SQSQueueProps (Some ''orders'') (Some QueueEncryption.KMS_MANAGED) None None (Some (Duration_days 4)) None []
        None None None None None))))) = Some (Duration_days 4)
   \<and> SnsTopicProps.masterKey (SnsTopic.superProps (projr (new_SnsTopic ''T'' (Some
       \<lparr>masterKey = Some (ImportedKey ''k''), otherTopicProps = [],
        SnsTopicProps.requireSecureTransport = None, enableEncryption = None,
        principalsAllowedToPublish = None, principalsAllowedToSubscribe = None\<rparr>)))) = Some (ImportedKey ''k'')
   \<and> DynamoDBTableProps.pointInTimeRecovery (DynamoDBTable.superProps (projr
       (new_DynamoDBTable (Some
       \<lparr>DynamoDBTableProps.billingMode = Some PAY_PER_REQUEST,
        DynamoDBTableProps.readCapacity = None, DynamoDBTableProps.writeCapacity = None,
        pointInTimeRecovery = Some False, deletionProtection = None,
        DynamoDBTableProps.encryption = None, otherTableProps = [],
        DynamoDBTableProps.readScalingProps = None,
        DynamoDBTableProps.writeScalingProps = None\<rparr>)))) = Some False
   \<and> FargateServiceProps.desiredCount (AlbFargateService_serviceProps
       \<lparr>ecsCluster = ''cluster'', loadBalancer = ''alb'',
        AlbFargateServiceProps.taskDefinition = ''task'',
        AlbFargateServiceProps.platformVersion = Some VERSION1_4,
        AlbFargateServiceProps.desiredCount = Some 3,
        AlbFargateServiceProps.minHealthyPercent = Some 50,
        AlbFargateServiceProps.maxHealthyPercent = None,
        AlbFargateServiceProps.healthCheckGracePeriod = None,
        AlbFargateServiceProps.serviceName = Some ''svc'',
        dataProtectionPolicyProps = None\<rparr>) = Some 3
   \<and> FargateServiceProps.minHealthyPercent (AlbFargateService_serviceProps
       \<lparr>ecsCluster = ''cluster'', loadBalancer = ''alb'',
        AlbFargateServiceProps.taskDefinition = ''task'',
        AlbFargateServiceProps.platformVersion = Some VERSION1_4,
        AlbFargateServiceProps.desiredCount = Some 3,
        AlbFargateServiceProps.minHealthyPercent = Some 50,
        AlbFargateServiceProps.maxHealthyPercent = None,
        AlbFargateServiceProps.healthCheckGracePeriod = None,
        AlbFargateServiceProps.serviceName = Some ''svc'',
        dataProtectionPolicyProps = None\<rparr>) = Some 50
   \<and> BucketProps.bucketName (IBucket.superProps (projr (new_AccessLogsBucket ''L''
       (BucketProps (Some ''logs'') (Some BucketEncryption.KMS) None None None None None None None []
        None None None)))) = Some ''logs''"
proof -
  let ?bp = "(BucketProps (Some ''data'') (Some S3_MANAGED) None None None None (Some False) None None []
        None (Some False) None)"
  let ?qp = "(SQSQueueProps (Some ''orders'') (Some QueueEncryption.KMS_MANAGED) None None (Some (Duration_days 4)) None []
        None None None None None)"
  let ?tp = "\<lparr>masterKey = Some (ImportedKey ''k''), otherTopicProps = [],
        SnsTopicProps.requireSecureTransport = None, enableEncryption = None,
        principalsAllowedToPublish = None, principalsAllowedToSubscribe = None\<rparr>"
  let ?dp = "\<lparr>DynamoDBTableProps.billingMode = Some PAY_PER_REQUEST,
        DynamoDBTableProps.readCapacity = None, DynamoDBTableProps.writeCapacity = None,
        pointInTimeRecovery = Some False, deletionProtection = None,
        DynamoDBTableProps.encryption = None, otherTableProps = [],
        DynamoDBTableProps.readScalingProps = None,
        DynamoDBTableProps.writeScalingProps = None\<rparr>"
  let ?fp = "\<lparr>ecsCluster = ''cluster'', loadBalancer = ''alb'',
        AlbFargateServiceProps.taskDefinition = ''task'',
        AlbFargateServiceProps.platformVersion = Some VERSION1_4,
        AlbFargateServiceProps.desiredCount = Some 3,
        AlbFargateServiceProps.minHealthyPercent = Some 50,
        AlbFargateServiceProps.maxHealthyPercent = None,
        AlbFargateServiceProps.healthCheckGracePeriod = None,
        AlbFargateServiceProps.serviceName = Some ''svc'',
        dataProtectionPolicyProps = None\<rparr>"
  let ?lp = "(BucketProps (Some ''logs'') (Some BucketEncryption.KMS) None None None None None None None []
        None None None)"
  have name: "deadLetterQueueName ?qp = Inr (Some ''orders-dlq'')"
    by (simp add: deadLetterQueueName_def truthy_def MAX_ALLOWED_QUEUE_NAME_LENGTH_def)
  have q: "new_SQSQueue ''Q'' (Some ?qp) = Inr (projr (new_SQSQueue ''Q'' (Some ?qp)))"
    using new_SQSQueue_total [OF name, of "''Q''"] by auto
  have t: "new_DynamoDBTable (Some ?dp) = Inr (projr (new_DynamoDBTable (Some ?dp)))"
    using new_DynamoDBTable_not_provisioned [of ?dp] by simp
  note all = explicit_fields_forwarded [where i = "''B''" and bprops = ?bp and j = "''Q''"
      and qprops = ?qp and k = "''T''" and tprops = ?tp and dprops = ?dp and fprops = ?fp
      and m = "''L''" and lprops = ?lp]
  from all [THEN conjunct1]
  have 1: "BucketProps.encryption (IBucket.superProps (projr (new_Bucket ''B'' (Some ?bp))))
             = Some S3_MANAGED
         \<and> BucketProps.versioned (IBucket.superProps (projr (new_Bucket ''B'' (Some ?bp))))
             = Some False"
    by auto
  from all [THEN conjunct2, THEN conjunct1, rule_format, OF q]
  have 2: "SQSQueueProps.encryption (IQueue.superProps (projr (new_SQSQueue ''Q'' (Some ?qp))))
             = Some QueueEncryption.KMS_MANAGED
         \<and> SQSQueueProps.retentionPeriod
               (IQueue.superProps (projr (new_SQSQueue ''Q'' (Some ?qp))))
             = Some (Duration_days 4)"
    by simp
  from all [THEN conjunct2, THEN conjunct2, THEN conjunct1]
  have 3: "SnsTopicProps.masterKey (SnsTopic.superProps (projr (new_SnsTopic ''T'' (Some ?tp))))
             = Some (ImportedKey ''k'')"
    by auto
  from all [THEN conjunct2, THEN conjunct2, THEN conjunct2, THEN conjunct1, rule_format, OF t]
  have 4: "DynamoDBTableProps.pointInTimeRecovery
             (DynamoDBTable.superProps (projr (new_DynamoDBTable (Some ?dp)))) = Some False"
    by simp
  from all [THEN conjunct2, THEN conjunct2, THEN conjunct2, THEN conjunct2, THEN conjunct1]
  have 5: "FargateServiceProps.desiredCount (AlbFargateService_serviceProps ?fp) = Some 3
         \<and> FargateServiceProps.minHealthyPercent (AlbFargateService_serviceProps ?fp) = Some 50"
    by simp
  from all [THEN conjunct2, THEN conjunct2, THEN conjunct2, THEN conjunct2, THEN conjunct2]
  have 6: "BucketProps.bucketName (IBucket.superProps (projr (new_AccessLogsBucket ''L'' ?lp)))
             = Some ''logs''"
    by auto
  from 1 2 3 4 5 6 show ?thesis by simp
qed

text \<open>
  Claim C8 as stated fails for \<^verbatim>\<open>AccessLogsBucket\<close>: props that set \<^verbatim>\<open>encryption\<close> to
  KMS are accepted, and the encryption handed to \<^verbatim>\<open>super\<close> is \<^verbatim>\<open>S3_MANAGED\<close>, which
  the wrapper fixes because a log bucket cannot use KMS.
\<close>

theorem access_logs_bucket_encryption_counterexample:
  "BucketProps.encryption
       (BucketProps (Some ''logs'') (Some BucketEncryption.KMS) None None None None None None None []
        None None None) = Some BucketEncryption.KMS
   \<and> \<not> isl (new_AccessLogsBucket ''L''
       (BucketProps (Some ''logs'') (Some BucketEncryption.KMS) None None None None None None None []
        None None None))
   \<and> BucketProps.encryption (IBucket.superProps (projr (new_AccessLogsBucket ''L''
       (BucketProps (Some ''logs'') (Some BucketEncryption.KMS) None None None None None None None []
        None None None)))) = Some S3_MANAGED
   \<and> Some S3_MANAGED \<noteq> Some BucketEncryption.KMS"
  unfolding new_AccessLogsBucket_eq
  by (simp add: Bucket_updatedProps_def AccessLogsBucket_updatedProps_def spread_def)

text \<open>The defaulting by \<^verbatim>\<open>||\<close> in \<^verbatim>\<open>AlbFargateService\<close> takes a
  \<^verbatim>\<open>minHealthyPercent\<close> of 0 for an unset one and hands on 100.\<close>

lemma zero_minHealthyPercent_replaced:
  "FargateServiceProps.minHealthyPercent (AlbFargateService_serviceProps
       \<lparr>ecsCluster = ''cluster'', loadBalancer = ''alb'',
        AlbFargateServiceProps.taskDefinition = ''task'',
        AlbFargateServiceProps.platformVersion = None,
        AlbFargateServiceProps.desiredCount = None,
        AlbFargateServiceProps.minHealthyPercent = Some 0,
        AlbFargateServiceProps.maxHealthyPercent = None,
        AlbFargateServiceProps.healthCheckGracePeriod = None,
        AlbFargateServiceProps.serviceName = None,
        dataProtectionPolicyProps = None\<rparr>) = Some 100"
  by (simp add: AlbFargateService_serviceProps_def numberOr_def DEFAULT_MIN_HEALTHY_PERCENT_def)

end
